theory Spec2Isabelle
  imports Complex_Main "HOL-Library.FSet" "HOL-Library.List_Lexorder" "HOL-Library.Char_ord"
begin

section \<open>Python values and the runtime\<close>

text \<open>
  The listener of \<^verbatim>\<open>bot/websocket_goal_listener.py\<close> works on decoded JSON, which is
  dynamically typed: any field may hold any value. \<open>pyval\<close> is the decoded value. A
  float is taken as the real number it stands for (no rounding, no NaN). A dict is an
  association list read with \<open>map_of\<close>.
\<close>

datatype pyval =
    PNone
  | PBool bool
  | PInt int
  | PFloat real
  | PStr string
  | PList "pyval list"
  | PDict "(string \<times> pyval) list"

text \<open>The exceptions (all subclasses of \<^verbatim>\<open>Exception\<close>) that the code can meet.\<close>

datatype exn = JSONDecodeError | AttributeError | TypeError | KeyError | OtherError string

text \<open>
  What the code takes from the Python runtime and its libraries, as parameters:
  \<^verbatim>\<open>json.loads\<close>; the text of a float, list or dict inside an f-string; the order in which
  \<^verbatim>\<open>list(a_set)\<close> lists a set (hash order, which is not the order of insertion); and the
  result of \<^verbatim>\<open>>\<close> on two operands that are not both numbers.
\<close>

record py_runtime =
  json_loads :: "string \<Rightarrow> exn + pyval"
  py_repr :: "pyval \<Rightarrow> string"
  set_order :: "string fset \<Rightarrow> string list"
  py_gt_other :: "pyval \<Rightarrow> pyval \<Rightarrow> exn + bool"

text \<open>\<^verbatim>\<open>d.get(k, default)\<close>: only a dict has the method.\<close>

fun dict_get :: "pyval \<Rightarrow> string \<Rightarrow> pyval \<Rightarrow> exn + pyval" where
  "dict_get (PDict kvs) k d = Inr (case map_of kvs k of None \<Rightarrow> d | Some v \<Rightarrow> v)"
| "dict_get _ k d = Inl AttributeError"

text \<open>\<^verbatim>\<open>d[k]\<close> with a string key.\<close>

fun subscript :: "pyval \<Rightarrow> string \<Rightarrow> exn + pyval" where
  "subscript (PDict kvs) k = (case map_of kvs k of None \<Rightarrow> Inl KeyError | Some v \<Rightarrow> Inr v)"
| "subscript _ k = Inl TypeError"

fun py_truthy :: "pyval \<Rightarrow> bool" where
  "py_truthy PNone = False"
| "py_truthy (PBool b) = b"
| "py_truthy (PInt n) = (n \<noteq> 0)"
| "py_truthy (PFloat x) = (x \<noteq> 0)"
| "py_truthy (PStr s) = (s \<noteq> [])"
| "py_truthy (PList xs) = (xs \<noteq> [])"
| "py_truthy (PDict kvs) = (kvs \<noteq> [])"

text \<open>\<^verbatim>\<open>x or 0\<close>\<close>

definition py_or0 :: "pyval \<Rightarrow> pyval" where
  "py_or0 x = (if py_truthy x then x else PInt 0)"

text \<open>
  The key under which a value is hashed in a set or dict: lists and dicts are unhashable,
  \<^verbatim>\<open>True\<close>/\<^verbatim>\<open>False\<close> are the keys 1/0, and a float with an integer value is
  the key of that integer.
\<close>

fun hash_key :: "pyval \<Rightarrow> exn + pyval" where
  "hash_key (PList xs) = Inl TypeError"
| "hash_key (PDict kvs) = Inl TypeError"
| "hash_key (PBool b) = Inr (PInt (if b then 1 else 0))"
| "hash_key (PFloat x) = Inr (if real_of_int \<lfloor>x\<rfloor> = x then PInt \<lfloor>x\<rfloor> else PFloat x)"
| "hash_key v = Inr v"

text \<open>The value of a number (bools are 1/0).\<close>

fun py_number :: "pyval \<Rightarrow> real option" where
  "py_number (PInt n) = Some (real_of_int n)"
| "py_number (PBool b) = Some (if b then 1 else 0)"
| "py_number (PFloat x) = Some x"
| "py_number _ = None"

text \<open>\<^verbatim>\<open>a > b\<close>: two numbers by their values, all else by the runtime.\<close>

definition py_gt :: "py_runtime \<Rightarrow> pyval \<Rightarrow> pyval \<Rightarrow> exn + bool" where
  "py_gt rt a b =
     (case (py_number a, py_number b) of
        (Some x, Some y) \<Rightarrow> Inr (x > y)
      | _ \<Rightarrow> py_gt_other rt a b)"

text \<open>The decimal text of an integer.\<close>

definition digit_char :: "nat \<Rightarrow> char" where
  "digit_char d = ''0123456789'' ! d"

function show_nat :: "nat \<Rightarrow> string" where
  "show_nat n = (if n < 10 then [digit_char n]
                 else show_nat (n div 10) @ [digit_char (n mod 10)])"
  by pat_completeness auto
termination
  by (relation "measure id") auto

declare show_nat.simps [simp del]

definition show_int :: "int \<Rightarrow> string" where
  "show_int i = (if i < 0 then CHR ''-'' # show_nat (nat (- i)) else show_nat (nat i))"

text \<open>The text a value takes inside an f-string.\<close>

fun py_format :: "py_runtime \<Rightarrow> pyval \<Rightarrow> string" where
  "py_format rt PNone = ''None''"
| "py_format rt (PBool b) = (if b then ''True'' else ''False'')"
| "py_format rt (PInt n) = show_int n"
| "py_format rt (PStr s) = s"
| "py_format rt v = py_repr rt v"

text \<open>Sequencing of steps that may raise.\<close>

definition seq :: "exn + 'a \<Rightarrow> ('a \<Rightarrow> exn + 'b) \<Rightarrow> exn + 'b" where
  "seq m f = (case m of Inl e \<Rightarrow> Inl e | Inr v \<Rightarrow> f v)"

text \<open>\<^verbatim>\<open>xs[-n:]\<close>: the last \<open>n\<close> elements, all of them when there are fewer.\<close>

definition last_n :: "nat \<Rightarrow> 'a list \<Rightarrow> 'a list" where
  "last_n n xs = drop (length xs - n) xs"

section \<open>GoalEventWS and the consumers\<close>

text \<open>
  The dataclass \<^verbatim>\<open>GoalEventWS\<close>. Its fields are annotated but not checked, so each holds
  whatever the payload held. The \<^verbatim>\<open>timestamp\<close> field (the wall clock) is left out.
\<close>

record goal_event =
  fixture_id :: pyval
  league_id :: pyval
  league_name :: pyval
  home_team :: pyval
  away_team :: pyval
  team :: pyval
  player :: pyval
  minute :: pyval
  home_score :: pyval
  away_score :: pyval
  goal_type :: pyval

text \<open>
  One call of a consumer: its name, the event it was called with, and what it raised.
  The list of all calls so far is the observable effect of the fan-out.
\<close>

type_synonym delivery = "string \<times> goal_event \<times> exn option"

text \<open>
  A registered callback: what it raises (if anything) may depend on the event and on every
  call made so far.
\<close>

record callback =
  cb_name :: string
  cb_is_coroutine :: bool
  cb_call :: "delivery list \<Rightarrow> goal_event \<Rightarrow> exn option"

section \<open>WebSocketGoalListener\<close>

definition SUPPORTED_LEAGUES :: "int set" where
  "SUPPORTED_LEAGUES = {39, 140, 78, 135, 61, 2, 3, 848}"

text \<open>\<^verbatim>\<open>league_id in self.SUPPORTED_LEAGUES\<close>\<close>

definition in_supported_leagues :: "pyval \<Rightarrow> exn + bool" where
  "in_supported_leagues v =
     (case hash_key v of
        Inl e \<Rightarrow> Inl e
      | Inr (PInt n) \<Rightarrow> Inr (n \<in> SUPPORTED_LEAGUES)
      | Inr _ \<Rightarrow> Inr False)"

text \<open>
  The listener's attributes. \<^verbatim>\<open>reconnect_attempts\<close> starts at 0 and is only incremented
  or reset to 0, so it is a natural number.
\<close>

record ws_listener =
  api_key :: string
  running :: bool
  goal_callbacks :: "callback list"
  seen_goals :: "string fset"
  reconnect_attempts :: nat
  max_reconnect_attempts :: nat
  base_reconnect_delay :: int
  max_reconnect_delay :: int
  active_fixtures :: "pyval \<rightharpoonup> pyval"

definition init_ws :: "string \<Rightarrow> ws_listener" where
  "init_ws key = \<lparr> api_key = key, running = False, goal_callbacks = [],
     seen_goals = {||}, reconnect_attempts = 0, max_reconnect_attempts = 10,
     base_reconnect_delay = 2, max_reconnect_delay = 60, active_fixtures = Map.empty \<rparr>"

definition register_goal_callback :: "ws_listener \<Rightarrow> callback \<Rightarrow> ws_listener" where
  "register_goal_callback s cb = s\<lparr>goal_callbacks := goal_callbacks s @ [cb]\<rparr>"

text \<open>
  \<^verbatim>\<open>_notify_goal_callbacks\<close>: each callback is called inside its own
  \<^verbatim>\<open>try\<close>/\<^verbatim>\<open>except Exception\<close>; the handler logs and the loop goes on.
\<close>

fun notify_goal_callbacks :: "callback list \<Rightarrow> goal_event \<Rightarrow> delivery list \<Rightarrow> exn + delivery list" where
  "notify_goal_callbacks [] goal calls = Inr calls"
| "notify_goal_callbacks (cb # rest) goal calls =
     (case (if cb_is_coroutine cb then cb_call cb calls goal else cb_call cb calls goal) of
        None \<Rightarrow> notify_goal_callbacks rest goal (calls @ [(cb_name cb, goal, None)])
      | Some e \<Rightarrow> notify_goal_callbacks rest goal (calls @ [(cb_name cb, goal, Some e)]))"

text \<open>The f-string \<^verbatim>\<open>f"{fixture_id}_{minute}_{player}"\<close>.\<close>

definition goal_id :: "py_runtime \<Rightarrow> pyval \<Rightarrow> pyval \<Rightarrow> pyval \<Rightarrow> string" where
  "goal_id rt fid m p = py_format rt fid @ ''_'' @ py_format rt m @ ''_'' @ py_format rt p"

text \<open>The clean-up \<^verbatim>\<open>if len(self.seen_goals) > 1000: ... set(list(self.seen_goals)[-500:])\<close>.\<close>

definition prune_seen :: "py_runtime \<Rightarrow> string fset \<Rightarrow> string fset" where
  "prune_seen rt seen =
     (if fcard seen > 1000 then fset_of_list (last_n 500 (set_order rt seen)) else seen)"

text \<open>The constructor call \<^verbatim>\<open>GoalEventWS(...)\<close> of \<^verbatim>\<open>_handle_goal_event\<close>.\<close>

definition make_goal_event ::
  "pyval \<Rightarrow> pyval \<Rightarrow> pyval \<Rightarrow> pyval \<Rightarrow> pyval \<Rightarrow> pyval \<Rightarrow> exn + goal_event" where
  "make_goal_event fid lid fixture league goal score =
     seq (dict_get league ''name'' (PStr ''Unknown'')) (\<lambda>lname.
     seq (dict_get fixture ''home_team'' (PStr ''Unknown'')) (\<lambda>home.
     seq (dict_get fixture ''away_team'' (PStr ''Unknown'')) (\<lambda>away.
     seq (dict_get goal ''team'' (PStr ''Unknown'')) (\<lambda>tm.
     seq (dict_get goal ''player'' (PStr ''Unknown'')) (\<lambda>pl.
     seq (dict_get goal ''minute'' (PInt 0)) (\<lambda>mi.
     seq (dict_get score ''home'' (PInt 0)) (\<lambda>hs.
     seq (dict_get score ''away'' (PInt 0)) (\<lambda>as.
     seq (dict_get goal ''type'' (PStr ''Normal'')) (\<lambda>gt.
     Inr \<lparr> fixture_id = fid, league_id = lid, league_name = lname, home_team = home,
           away_team = away, team = tm, player = pl, minute = mi, home_score = hs,
           away_score = as, goal_type = gt \<rparr>)))))))))"

text \<open>
  The first lines of \<^verbatim>\<open>_handle_goal_event\<close>: the four parts of the payload, the two
  ids, and the result of the league test.
\<close>

definition goal_fields ::
  "pyval \<Rightarrow> exn + (pyval \<times> pyval \<times> pyval \<times> pyval \<times> pyval \<times> pyval \<times> bool)" where
  "goal_fields data =
     seq (dict_get data ''fixture'' (PDict [])) (\<lambda>fixture.
     seq (dict_get data ''league'' (PDict [])) (\<lambda>league.
     seq (dict_get data ''goal'' (PDict [])) (\<lambda>goal.
     seq (dict_get data ''score'' (PDict [])) (\<lambda>score.
     seq (dict_get fixture ''id'' PNone) (\<lambda>fid.
     seq (dict_get league ''id'' PNone) (\<lambda>lid.
     seq (in_supported_leagues lid) (\<lambda>supported.
     Inr (fixture, league, goal, score, fid, lid, supported))))))))"

text \<open>The line that builds \<^verbatim>\<open>goal_id\<close>, with its two \<^verbatim>\<open>goal.get\<close> calls.\<close>

definition goal_key :: "py_runtime \<Rightarrow> pyval \<Rightarrow> pyval \<Rightarrow> exn + string" where
  "goal_key rt fid goal =
     seq (dict_get goal ''minute'' (PInt 0)) (\<lambda>m.
     seq (dict_get goal ''player'' (PStr ''unknown'')) (\<lambda>p.
     Inr (goal_id rt fid m p)))"

text \<open>
  The body of the \<^verbatim>\<open>try\<close> of \<^verbatim>\<open>_handle_goal_event\<close>. The result is the exception
  that left the body (if any), the listener and the calls made: what was changed before an
  exception stays changed.
\<close>

definition handle_goal_event_body ::
  "py_runtime \<Rightarrow> ws_listener \<Rightarrow> pyval \<Rightarrow> delivery list \<Rightarrow> exn option \<times> ws_listener \<times> delivery list" where
  "handle_goal_event_body rt s data calls =
     (case goal_fields data of
        Inl e \<Rightarrow> (Some e, s, calls)
      | Inr (fixture, league, goal, score, fid, lid, supported) \<Rightarrow>
          if \<not> supported then (None, s, calls)
          else
            (case goal_key rt fid goal of
               Inl e \<Rightarrow> (Some e, s, calls)
             | Inr gid \<Rightarrow>
                 if gid |\<in>| seen_goals s then (None, s, calls)
                 else
                   let s' = s\<lparr>seen_goals := prune_seen rt (finsert gid (seen_goals s))\<rparr> in
                   (case make_goal_event fid lid fixture league goal score of
                      Inl e \<Rightarrow> (Some e, s', calls)
                    | Inr ev \<Rightarrow>
                        (case notify_goal_callbacks (goal_callbacks s') ev calls of
                           Inl e \<Rightarrow> (Some e, s', calls)
                         | Inr calls' \<Rightarrow> (None, s', calls')))))"

text \<open>\<^verbatim>\<open>_handle_goal_event\<close>: the \<^verbatim>\<open>except Exception\<close> logs and returns.\<close>

definition handle_goal_event ::
  "py_runtime \<Rightarrow> ws_listener \<Rightarrow> pyval \<Rightarrow> delivery list \<Rightarrow> exn option \<times> ws_listener \<times> delivery list" where
  "handle_goal_event rt s data calls =
     (case handle_goal_event_body rt s data calls of
        (Some e, s', calls') \<Rightarrow> (None, s', calls')
      | (None, s', calls') \<Rightarrow> (None, s', calls'))"

text \<open>\<^verbatim>\<open>_handle_fixture_update\<close> has no \<^verbatim>\<open>try\<close> of its own.\<close>

definition handle_fixture_update :: "ws_listener \<Rightarrow> pyval \<Rightarrow> exn + ws_listener" where
  "handle_fixture_update s data =
     seq (dict_get data ''fixture'' (PDict [])) (\<lambda>fixture.
     seq (dict_get fixture ''id'' PNone) (\<lambda>fid.
     seq (dict_get data ''status'' (PStr [])) (\<lambda>status.
     if py_truthy fid
     then seq (hash_key fid) (\<lambda>k. Inr (s\<lparr>active_fixtures := (active_fixtures s)(k \<mapsto> data)\<rparr>))
     else Inr s)))"

text \<open>
  \<^verbatim>\<open>_process_message\<close>: both handlers (\<^verbatim>\<open>json.JSONDecodeError\<close> and
  \<^verbatim>\<open>Exception\<close>) calls and return.
\<close>

definition process_message ::
  "py_runtime \<Rightarrow> ws_listener \<Rightarrow> string \<Rightarrow> delivery list \<Rightarrow> exn option \<times> ws_listener \<times> delivery list" where
  "process_message rt s message calls =
     (case json_loads rt message of
        Inl e \<Rightarrow> (None, s, calls)
      | Inr data \<Rightarrow>
          (case dict_get data ''type'' (PStr []) of
             Inl e \<Rightarrow> (None, s, calls)
           | Inr msg_type \<Rightarrow>
               if msg_type = PStr ''goal'' then
                 (case handle_goal_event rt s data calls of
                    (Some e, s', calls') \<Rightarrow> (None, s', calls')
                  | (None, s', calls') \<Rightarrow> (None, s', calls'))
               else if msg_type = PStr ''fixture_update'' then
                 (case handle_fixture_update s data of
                    Inl e \<Rightarrow> (None, s, calls)
                  | Inr s' \<Rightarrow> (None, s', calls))
               else if msg_type = PStr ''heartbeat'' then (None, s, calls)
               else if msg_type = PStr ''error'' then
                 (case dict_get data ''message'' (PStr ''Unknown error'') of
                    Inl e \<Rightarrow> (None, s, calls)
                  | Inr info \<Rightarrow> (None, s, calls))
               else (None, s, calls)))"

text \<open>
  \<^verbatim>\<open>random.uniform(a, b)\<close> is \<^verbatim>\<open>a + (b - a) * random()\<close>; the draw \<open>r\<close> of
  \<^verbatim>\<open>random()\<close> is given from outside. Floating-point arithmetic is taken as exact.
\<close>

definition uniform :: "real \<Rightarrow> real \<Rightarrow> real \<Rightarrow> real" where
  "uniform a b r = a + (b - a) * r"

text \<open>
  \<^verbatim>\<open>_handle_reconnection\<close>: the new listener and the delay slept (\<open>None\<close> when the
  ceiling is passed and the method returns without sleeping).
\<close>

definition handle_reconnection :: "ws_listener \<Rightarrow> real \<Rightarrow> ws_listener \<times> real option" where
  "handle_reconnection s r =
     (let s1 = s\<lparr>reconnect_attempts := reconnect_attempts s + 1\<rparr> in
      if reconnect_attempts s1 > max_reconnect_attempts s1
      then (s1\<lparr>running := False\<rparr>, None)
      else
        let delay = min (real_of_int (base_reconnect_delay s1) * 2 ^ (reconnect_attempts s1 - 1))
                        (real_of_int (max_reconnect_delay s1));
            jitter = delay * uniform 0 0.25 r
        in (s1, Some (delay + jitter)))"

section \<open>The connection loop\<close>

text \<open>
  What the network does in one pass of \<^verbatim>\<open>_connect_and_listen\<close>: either
  \<^verbatim>\<open>websockets.connect\<close> raises, or the connection is made, the frames given arrive, and
  the stream then ends cleanly (\<open>None\<close>) or with an exception. A subscription that cannot
  be sent is a connection that ends with an exception before any frame.
\<close>

datatype conn_event = ConnectFails exn | Connected "string list" "exn option"

text \<open>The \<^verbatim>\<open>async for message in ws\<close> loop.\<close>

fun listen ::
  "py_runtime \<Rightarrow> ws_listener \<Rightarrow> string list \<Rightarrow> exn option \<Rightarrow> delivery list \<Rightarrow> exn option \<times> ws_listener \<times> delivery list" where
  "listen rt s [] ending calls = (ending, s, calls)"
| "listen rt s (m # ms) ending calls =
     (if \<not> running s then (None, s, calls)
      else
        (case process_message rt s m calls of
           (Some e, s', calls') \<Rightarrow> (Some e, s', calls')
         | (None, s', calls') \<Rightarrow> listen rt s' ms ending calls'))"

definition connect_and_listen ::
  "py_runtime \<Rightarrow> ws_listener \<Rightarrow> conn_event \<Rightarrow> delivery list \<Rightarrow> exn option \<times> ws_listener \<times> delivery list" where
  "connect_and_listen rt s ev calls =
     (case ev of
        ConnectFails e \<Rightarrow> (Some e, s, calls)
      | Connected ms ending \<Rightarrow> listen rt (s\<lparr>reconnect_attempts := 0\<rparr>) ms ending calls)"

text \<open>
  How a long-running method ends: it returns, it raises, or the network events given are
  used up while its loop is still running.
\<close>

datatype 'a completion = Returned 'a | Raised exn 'a | Pending 'a

text \<open>
  The \<^verbatim>\<open>while self.running\<close> loop of \<^verbatim>\<open>start\<close>. Each pass takes one network event and
  the random draw for the jitter of the reconnection that may follow. The delays slept are
  collected.
\<close>

fun start_loop ::
  "py_runtime \<Rightarrow> ws_listener \<Rightarrow> (conn_event \<times> real) list \<Rightarrow> delivery list \<Rightarrow> real list
     \<Rightarrow> (ws_listener \<times> delivery list \<times> real list) completion" where
  "start_loop rt s [] calls sleeps =
     (if running s then Pending (s, calls, sleeps) else Returned (s, calls, sleeps))"
| "start_loop rt s ((ev, r) # rest) calls sleeps =
     (if \<not> running s then Returned (s, calls, sleeps)
      else
        (case connect_and_listen rt s ev calls of
           (None, s1, calls1) \<Rightarrow> start_loop rt s1 rest calls1 sleeps
         | (Some e, s1, calls1) \<Rightarrow>
             if running s1 then
               (case handle_reconnection s1 r of
                  (s2, None) \<Rightarrow> start_loop rt s2 rest calls1 sleeps
                | (s2, Some d) \<Rightarrow> start_loop rt s2 rest calls1 (sleeps @ [d]))
             else start_loop rt s1 rest calls1 sleeps))"

definition start ::
  "py_runtime \<Rightarrow> ws_listener \<Rightarrow> (conn_event \<times> real) list \<Rightarrow> delivery list
     \<Rightarrow> (ws_listener \<times> delivery list \<times> real list) completion" where
  "start rt s script calls = start_loop rt (s\<lparr>running := True\<rparr>) script calls []"

section \<open>HybridGoalListener\<close>

record hybrid_listener =
  h_api_key :: string
  ws :: ws_listener
  h_running :: bool
  use_polling_fallback :: bool
  previous_scores :: "pyval \<rightharpoonup> pyval \<times> pyval"
  h_goal_callbacks :: "callback list"

definition init_hybrid :: "string \<Rightarrow> hybrid_listener" where
  "init_hybrid key = \<lparr> h_api_key = key, ws = init_ws key, h_running = False,
     use_polling_fallback = False, previous_scores = Map.empty, h_goal_callbacks = [] \<rparr>"

definition h_register_goal_callback :: "hybrid_listener \<Rightarrow> callback \<Rightarrow> hybrid_listener" where
  "h_register_goal_callback h cb =
     h\<lparr>h_goal_callbacks := h_goal_callbacks h @ [cb], ws := register_goal_callback (ws h) cb\<rparr>"

text \<open>\<^verbatim>\<open>_run_websocket\<close>: the fallback flag is set in the \<^verbatim>\<open>except Exception\<close> only.\<close>

definition run_websocket ::
  "py_runtime \<Rightarrow> hybrid_listener \<Rightarrow> (conn_event \<times> real) list \<Rightarrow> delivery list
     \<Rightarrow> (hybrid_listener \<times> delivery list) completion" where
  "run_websocket rt h script calls =
     (case start rt (ws h) script calls of
        Returned (s, calls', sleeps) \<Rightarrow> Returned (h\<lparr>ws := s\<rparr>, calls')
      | Raised e (s, calls', sleeps) \<Rightarrow> Returned (h\<lparr>ws := s, use_polling_fallback := True\<rparr>, calls')
      | Pending (s, calls', sleeps) \<Rightarrow> Pending (h\<lparr>ws := s\<rparr>, calls'))"

text \<open>The constructor call \<^verbatim>\<open>GoalEventWS(...)\<close> of \<^verbatim>\<open>_emit_polling_goal\<close>.\<close>

definition polling_goal_event :: "pyval \<Rightarrow> string \<Rightarrow> exn + goal_event" where
  "polling_goal_event fixture side =
     seq (subscript fixture ''teams'') (\<lambda>teams.
     seq (subscript fixture ''goals'') (\<lambda>goals.
     seq (subscript fixture ''league'') (\<lambda>league.
     seq (seq (subscript teams side) (\<lambda>t. subscript t ''name'')) (\<lambda>tm.
     seq (seq (subscript fixture ''fixture'') (\<lambda>f. subscript f ''id'')) (\<lambda>fid.
     seq (subscript league ''id'') (\<lambda>lid.
     seq (subscript league ''name'') (\<lambda>lname.
     seq (seq (subscript teams ''home'') (\<lambda>t. subscript t ''name'')) (\<lambda>home.
     seq (seq (subscript teams ''away'') (\<lambda>t. subscript t ''name'')) (\<lambda>away.
     seq (seq (seq (subscript fixture ''fixture'') (\<lambda>f. subscript f ''status''))
            (\<lambda>st. dict_get st ''elapsed'' (PInt 0))) (\<lambda>mi.
     seq (subscript goals ''home'') (\<lambda>gh.
     seq (subscript goals ''away'') (\<lambda>ga.
     Inr \<lparr> fixture_id = fid, league_id = lid, league_name = lname, home_team = home,
           away_team = away, team = tm, player = PStr ''Unknown (from polling)'', minute = mi,
           home_score = py_or0 gh, away_score = py_or0 ga,
           goal_type = PStr ''Normal'' \<rparr>))))))))))))"

text \<open>The callback loop at the end of \<^verbatim>\<open>_emit_polling_goal\<close>.\<close>

fun polling_callbacks :: "callback list \<Rightarrow> goal_event \<Rightarrow> delivery list \<Rightarrow> exn + delivery list" where
  "polling_callbacks [] goal_event calls = Inr calls"
| "polling_callbacks (cb # rest) goal_event calls =
     (case (if cb_is_coroutine cb then cb_call cb calls goal_event else cb_call cb calls goal_event) of
        None \<Rightarrow> polling_callbacks rest goal_event (calls @ [(cb_name cb, goal_event, None)])
      | Some e \<Rightarrow> polling_callbacks rest goal_event (calls @ [(cb_name cb, goal_event, Some e)]))"

definition emit_polling_goal ::
  "hybrid_listener \<Rightarrow> pyval \<Rightarrow> string \<Rightarrow> delivery list \<Rightarrow> exn + delivery list" where
  "emit_polling_goal h fixture side calls =
     seq (polling_goal_event fixture side)
         (\<lambda>goal_event. polling_callbacks (h_goal_callbacks h) goal_event calls)"

text \<open>
  One pass of the \<^verbatim>\<open>for fixture in fixtures\<close> loop of \<^verbatim>\<open>_poll_for_goals\<close>. There is no
  \<^verbatim>\<open>try\<close> inside the loop: an exception leaves the pass, with the calls already made.
\<close>

definition poll_fixture ::
  "py_runtime \<Rightarrow> hybrid_listener \<Rightarrow> pyval \<Rightarrow> delivery list \<Rightarrow> exn option \<times> hybrid_listener \<times> delivery list" where
  "poll_fixture rt h fixture calls =
     (case seq (seq (subscript fixture ''fixture'') (\<lambda>f. subscript f ''id'')) (\<lambda>fid.
           seq (seq (subscript fixture ''league'') (\<lambda>l. subscript l ''id'')) (\<lambda>lid.
           seq (in_supported_leagues lid) (\<lambda>supported. Inr (fid, supported)))) of
        Inl e \<Rightarrow> (Some e, h, calls)
      | Inr (fid, supported) \<Rightarrow>
          if \<not> supported then (None, h, calls)
          else
            (case seq (seq (subscript fixture ''goals'') (\<lambda>g. subscript g ''home'')) (\<lambda>gh.
                  seq (seq (subscript fixture ''goals'') (\<lambda>g. subscript g ''away'')) (\<lambda>ga.
                  seq (hash_key fid) (\<lambda>k. Inr (py_or0 gh, py_or0 ga, k)))) of
               Inl e \<Rightarrow> (Some e, h, calls)
             | Inr (home, away, k) \<Rightarrow>
                 (case previous_scores h k of
                    None \<Rightarrow> (None, h\<lparr>previous_scores := (previous_scores h)(k \<mapsto> (home, away))\<rparr>, calls)
                  | Some (prev_home, prev_away) \<Rightarrow>
                      (case py_gt rt home prev_home of
                         Inl e \<Rightarrow> (Some e, h, calls)
                       | Inr home_up \<Rightarrow>
                      (case (if home_up then emit_polling_goal h fixture ''home'' calls else Inr calls) of
                         Inl e \<Rightarrow> (Some e, h, calls)
                       | Inr calls1 \<Rightarrow>
                      (case py_gt rt away prev_away of
                         Inl e \<Rightarrow> (Some e, h, calls1)
                       | Inr away_up \<Rightarrow>
                      (case (if away_up then emit_polling_goal h fixture ''away'' calls1 else Inr calls1) of
                         Inl e \<Rightarrow> (Some e, h, calls1)
                       | Inr calls2 \<Rightarrow>
                           (None, h\<lparr>previous_scores := (previous_scores h)(k \<mapsto> (home, away))\<rparr>,
                            calls2))))))))"

fun poll_loop ::
  "py_runtime \<Rightarrow> hybrid_listener \<Rightarrow> pyval list \<Rightarrow> delivery list \<Rightarrow> exn option \<times> hybrid_listener \<times> delivery list" where
  "poll_loop rt h [] calls = (None, h, calls)"
| "poll_loop rt h (fixture # rest) calls =
     (case poll_fixture rt h fixture calls of
        (Some e, h', calls') \<Rightarrow> (Some e, h', calls')
      | (None, h', calls') \<Rightarrow> poll_loop rt h' rest calls')"

text \<open>What \<^verbatim>\<open>for x in v\<close> runs over.\<close>

fun py_iter :: "pyval \<Rightarrow> exn + pyval list" where
  "py_iter (PList xs) = Inr xs"
| "py_iter (PDict kvs) = Inr (map PStr (remdups (map fst kvs)))"
| "py_iter (PStr s) = Inr (map (\<lambda>c. PStr [c]) s)"
| "py_iter _ = Inl TypeError"

text \<open>
  The answer to the HTTP request: the request raises, or there is a status code and the
  result of \<^verbatim>\<open>response.json()\<close>.
\<close>

datatype http_reply = RequestFails exn | Reply int "exn + pyval"

text \<open>\<^verbatim>\<open>_poll_for_goals\<close>: the \<^verbatim>\<open>except Exception\<close> around the whole body logs and returns.\<close>

definition poll_for_goals ::
  "py_runtime \<Rightarrow> hybrid_listener \<Rightarrow> http_reply \<Rightarrow> delivery list \<Rightarrow> exn option \<times> hybrid_listener \<times> delivery list" where
  "poll_for_goals rt h reply calls =
     (case reply of
        RequestFails e \<Rightarrow> (None, h, calls)
      | Reply status_code body \<Rightarrow>
          if status_code \<noteq> 200 then (None, h, calls)
          else
            (case seq body (\<lambda>data. seq (dict_get data ''response'' (PList [])) py_iter) of
               Inl e \<Rightarrow> (None, h, calls)
             | Inr fixtures \<Rightarrow>
                 (case poll_loop rt h fixtures calls of
                    (Some e, h', calls') \<Rightarrow> (None, h', calls')
                  | (None, h', calls') \<Rightarrow> (None, h', calls'))))"

text \<open>
  \<^verbatim>\<open>_health_monitor\<close>: one pass of the loop per element of the list, which is the answer
  that the request of this pass gets if the pass polls. The 30 second sleep is not modelled.
\<close>

fun health_monitor ::
  "py_runtime \<Rightarrow> hybrid_listener \<Rightarrow> http_reply list \<Rightarrow> delivery list \<Rightarrow> (hybrid_listener \<times> delivery list) completion" where
  "health_monitor rt h [] calls = (if h_running h then Pending (h, calls) else Returned (h, calls))"
| "health_monitor rt h (reply # rest) calls =
     (if \<not> h_running h then Returned (h, calls)
      else if use_polling_fallback h then
        (case poll_for_goals rt h reply calls of
           (Some e, h', calls') \<Rightarrow> Raised e (h', calls')
         | (None, h', calls') \<Rightarrow> health_monitor rt h' rest calls')
      else health_monitor rt h rest calls)"

section \<open>Concrete inputs\<close>

text \<open>
  A runtime for the examples below: it decodes exactly the frames listed and lists a set in
  sorted order. The examples never format a float, list or dict and never compare values
  that are not numbers.
\<close>

definition example_runtime :: "(string \<times> pyval) list \<Rightarrow> py_runtime" where
  "example_runtime frames =
     \<lparr> json_loads = (\<lambda>m. case map_of frames m of None \<Rightarrow> Inl JSONDecodeError | Some v \<Rightarrow> Inr v),
       py_repr = (\<lambda>v. ''<object>''),
       set_order = sorted_list_of_fset,
       py_gt_other = (\<lambda>a b. Inl TypeError) \<rparr>"

text \<open>Two consumers: one that returns, one that raises on every call.\<close>

definition on_goal :: callback where
  "on_goal = \<lparr> cb_name = ''on_goal'', cb_is_coroutine = True, cb_call = (\<lambda>calls ev. None) \<rparr>"

definition broken_consumer :: callback where
  "broken_consumer = \<lparr> cb_name = ''broken_consumer'', cb_is_coroutine = False,
     cb_call = (\<lambda>calls ev. Some (OtherError ''boom'')) \<rparr>"

text \<open>A goal frame with no \<^verbatim>\<open>goal\<close> and no \<^verbatim>\<open>score\<close> part, and what it decodes to.\<close>

definition bare_goal_frame :: string where
  \<open>bare_goal_frame = ''{"type": "goal", "fixture": {"id": 7}, "league": {"id": 39}}''\<close>

definition bare_goal :: pyval where
  "bare_goal = PDict [(''type'', PStr ''goal''), (''fixture'', PDict [(''id'', PInt 7)]),
     (''league'', PDict [(''id'', PInt 39)])]"

definition unknown_event :: "pyval \<Rightarrow> pyval \<Rightarrow> goal_event" where
  "unknown_event fid lid = \<lparr> fixture_id = fid, league_id = lid, league_name = PStr ''Unknown'',
     home_team = PStr ''Unknown'', away_team = PStr ''Unknown'', team = PStr ''Unknown'',
     player = PStr ''Unknown'', minute = PInt 0, home_score = PInt 0, away_score = PInt 0,
     goal_type = PStr ''Normal'' \<rparr>"

text \<open>A goal frame of a league that is not supported.\<close>

definition minor_league_frame :: string where
  \<open>minor_league_frame = ''{"type": "goal", "fixture": {"id": 8}, "league": {"id": 999}}''\<close>

definition minor_league_goal :: pyval where
  "minor_league_goal = PDict [(''type'', PStr ''goal''), (''fixture'', PDict [(''id'', PInt 8)]),
     (''league'', PDict [(''id'', PInt 999)])]"

text \<open>
  Eleven connection attempts in a row that are refused (the random draws are all 0).
\<close>

definition refused :: "conn_event \<times> real" where
  "refused = (ConnectFails (OtherError ''connection refused''), 0)"

definition eleven_refusals :: "(conn_event \<times> real) list" where
  "eleven_refusals = [refused, refused, refused, refused, refused, refused, refused, refused,
     refused, refused, refused]"

text \<open>
  A hybrid listener that was started (\<^verbatim>\<open>running\<close> set) with one callback registered.
\<close>

definition started_hybrid :: hybrid_listener where
  "started_hybrid = h_register_goal_callback ((init_hybrid '''')\<lparr>h_running := True\<rparr>) on_goal"

text \<open>
  One live fixture of a supported league as the fixtures endpoint gives it, with the two
  scores as parameters, and the HTTP answer that holds just this fixture.
\<close>

definition live_fixture :: "pyval \<Rightarrow> pyval \<Rightarrow> pyval" where
  "live_fixture h a = PDict
     [(''fixture'', PDict [(''id'', PInt 501), (''status'', PDict [(''elapsed'', PInt 63)])]),
      (''league'', PDict [(''id'', PInt 39), (''name'', PStr ''Premier League'')]),
      (''teams'', PDict [(''home'', PDict [(''name'', PStr ''Arsenal'')]),
                         (''away'', PDict [(''name'', PStr ''Chelsea'')])]),
      (''goals'', PDict [(''home'', h), (''away'', a)])]"

definition live_reply :: "pyval \<Rightarrow> pyval \<Rightarrow> http_reply" where
  "live_reply h a = Reply 200 (Inr (PDict [(''response'', PList [live_fixture h a])]))"

definition polled_event :: "string \<Rightarrow> pyval \<Rightarrow> pyval \<Rightarrow> goal_event" where
  "polled_event scorer h a = \<lparr> fixture_id = PInt 501, league_id = PInt 39,
     league_name = PStr ''Premier League'', home_team = PStr ''Arsenal'',
     away_team = PStr ''Chelsea'', team = PStr scorer, player = PStr ''Unknown (from polling)'',
     minute = PInt 63, home_score = h, away_score = a, goal_type = PStr ''Normal'' \<rparr>"

text \<open>
  A goal message of fixture \<open>fid\<close> in league 39 with the given \<^verbatim>\<open>goal\<close> and
  \<^verbatim>\<open>score\<close> parts, and the event that the stream path makes from it when the message
  names the player, the minute and both scores.
\<close>

definition goal_message :: "int \<Rightarrow> (string \<times> pyval) list \<Rightarrow> (string \<times> pyval) list \<Rightarrow> pyval" where
  "goal_message fid goal score = PDict [(''type'', PStr ''goal''),
     (''fixture'', PDict [(''id'', PInt fid)]), (''league'', PDict [(''id'', PInt 39)]),
     (''goal'', PDict goal), (''score'', PDict score)]"

definition stream_event :: "int \<Rightarrow> pyval \<Rightarrow> pyval \<Rightarrow> pyval \<Rightarrow> pyval \<Rightarrow> goal_event" where
  "stream_event fid p m h a = \<lparr> fixture_id = PInt fid, league_id = PInt 39,
     league_name = PStr ''Unknown'', home_team = PStr ''Unknown'', away_team = PStr ''Unknown'',
     team = PStr ''Unknown'', player = p, minute = m, home_score = h, away_score = a,
     goal_type = PStr ''Normal'' \<rparr>"

text \<open>
  Two frames for fixture 7: a goal in minute 200 at 2 to -1, then a goal in minute 50 at 1-0.
\<close>

definition minute_200_frame :: string where
  \<open>minute_200_frame = ''{"type": "goal", "fixture": {"id": 7}, "league": {"id": 39}, "goal": {"minute": 200, "player": "Saka"}, "score": {"home": 2, "away": -1}}''\<close>

definition minute_200_goal :: pyval where
  "minute_200_goal = goal_message 7 [(''minute'', PInt 200), (''player'', PStr ''Saka'')]
     [(''home'', PInt 2), (''away'', PInt (- 1))]"

definition minute_50_frame :: string where
  \<open>minute_50_frame = ''{"type": "goal", "fixture": {"id": 7}, "league": {"id": 39}, "goal": {"minute": 50, "player": "Rice"}, "score": {"home": 1, "away": 0}}''\<close>

definition minute_50_goal :: pyval where
  "minute_50_goal = goal_message 7 [(''minute'', PInt 50), (''player'', PStr ''Rice'')]
     [(''home'', PInt 1), (''away'', PInt 0)]"

definition listening :: ws_listener where
  "listening = (init_ws '''')\<lparr>running := True, goal_callbacks := [on_goal]\<rparr>"

text \<open>
  The ranges that the specification gives for a \<open>GoalEvent\<close>: a minute from 0 to 130 and
  scores that are not negative.
\<close>

fun spec_minute_ok :: "pyval \<Rightarrow> bool" where
  "spec_minute_ok (PInt m) = (0 \<le> m \<and> m \<le> 130)"
| "spec_minute_ok (PFloat x) = (0 \<le> x \<and> x \<le> 130)"
| "spec_minute_ok _ = False"

fun spec_score_ok :: "pyval \<Rightarrow> bool" where
  "spec_score_ok (PInt n) = (0 \<le> n)"
| "spec_score_ok (PFloat x) = (0 \<le> x)"
| "spec_score_ok _ = False"

text \<open>
  A listener that has seen 1000 goals: those of fixture 9 in minute 0 by the players
  \<^verbatim>\<open>z\<close>, \<^verbatim>\<open>zz\<close>, \<^verbatim>\<open>zzz\<close> and so on. Each key is the f-string of such a goal.
\<close>

definition crowded_key :: "nat \<Rightarrow> string" where
  "crowded_key i = ''9_0_'' @ replicate i (CHR ''z'')"

definition crowded_seen :: "string fset" where
  "crowded_seen = fset_of_list (map crowded_key [1..<1001])"

definition crowded_listener :: ws_listener where
  "crowded_listener = listening\<lparr>seen_goals := crowded_seen\<rparr>"

text \<open>What \<^verbatim>\<open>list(self.seen_goals)[-500:]\<close> keeps of these keys in sorted order.\<close>

definition crowded_kept :: "string fset" where
  "crowded_kept = fset_of_list (map crowded_key [501..<1001])"

text \<open>A goal of fixture 7 by Kane in minute 30.\<close>

definition kane_frame :: string where
  \<open>kane_frame = ''{"type": "goal", "fixture": {"id": 7}, "league": {"id": 39}, "goal": {"minute": 30, "player": "Kane"}, "score": {"home": 1, "away": 0}}''\<close>

definition kane_goal :: pyval where
  "kane_goal = goal_message 7 [(''minute'', PInt 30), (''player'', PStr ''Kane'')]
     [(''home'', PInt 1), (''away'', PInt 0)]"

text \<open>A goal of fixture 7 by Saka in minute 12.\<close>

definition saka_goal :: pyval where
  "saka_goal = goal_message 7 [(''minute'', PInt 12), (''player'', PStr ''Saka'')]
     [(''home'', PInt 1), (''away'', PInt 0)]"

text \<open>
  Two goals of fixture 7 in minute 45, to 1-0 and to 2-0, in frames that name no player.
\<close>

definition first_45_frame :: string where
  \<open>first_45_frame = ''{"type": "goal", "fixture": {"id": 7}, "league": {"id": 39}, "goal": {"minute": 45}, "score": {"home": 1, "away": 0}}''\<close>

definition first_45_goal :: pyval where
  "first_45_goal = goal_message 7 [(''minute'', PInt 45)] [(''home'', PInt 1), (''away'', PInt 0)]"

definition second_45_frame :: string where
  \<open>second_45_frame = ''{"type": "goal", "fixture": {"id": 7}, "league": {"id": 39}, "goal": {"minute": 45}, "score": {"home": 2, "away": 0}}''\<close>

definition second_45_goal :: pyval where
  "second_45_goal = goal_message 7 [(''minute'', PInt 45)] [(''home'', PInt 2), (''away'', PInt 0)]"

text \<open>
  The frames of the 1000 goals of fixture 9 (the \<open>i\<close>-th is by the player whose name is
  \<open>i\<close> times \<^verbatim>\<open>z\<close>), what each decodes to, its entry in the table of a runtime, and the
  call of the callback that it leads to.
\<close>

definition crowded_frame :: "nat \<Rightarrow> string" where
  \<open>crowded_frame i = ''{"type": "goal", "fixture": {"id": 9}, "league": {"id": 39}, "goal": {"minute": 0, "player": "'' @ replicate i (CHR ''z'') @ ''"}, "score": {"home": 0, "away": 0}}''\<close>

definition crowded_goal :: "nat \<Rightarrow> pyval" where
  "crowded_goal i = goal_message 9 [(''minute'', PInt 0), (''player'', PStr (replicate i (CHR ''z'')))]
     [(''home'', PInt 0), (''away'', PInt 0)]"

definition crowded_entry :: "nat \<Rightarrow> string \<times> pyval" where
  "crowded_entry i = (crowded_frame i, crowded_goal i)"

definition crowded_delivery :: "nat \<Rightarrow> delivery" where
  "crowded_delivery i =
     (''on_goal'', stream_event 9 (PStr (replicate i (CHR ''z''))) (PInt 0) (PInt 0) (PInt 0), None)"

text \<open>
  The live fixture 501 at 2-0 without its \<^verbatim>\<open>teams\<close> part, and a fixture 502 that has
  nothing but its id.
\<close>

definition fixture_without_teams :: pyval where
  "fixture_without_teams = PDict
     [(''fixture'', PDict [(''id'', PInt 501), (''status'', PDict [(''elapsed'', PInt 63)])]),
      (''league'', PDict [(''id'', PInt 39), (''name'', PStr ''Premier League'')]),
      (''goals'', PDict [(''home'', PInt 2), (''away'', PNone)])]"

definition fixture_id_only :: pyval where
  "fixture_id_only = PDict [(''fixture'', PDict [(''id'', PInt 502)])]"

section \<open>Fan-out\<close>

lemma notify_goal_callbacks_appends:
  "\<exists>new. notify_goal_callbacks cbs goal calls = Inr (calls @ new)
     \<and> map (\<lambda>d. (fst d, fst (snd d))) new = map (\<lambda>cb. (cb_name cb, goal)) cbs"
proof (induction cbs arbitrary: calls)
  case Nil
  then show ?case by simp
next
  case (Cons cb cbs)
  show ?case
  proof (cases "cb_call cb calls goal")
    case None
    from Cons.IH [of "calls @ [(cb_name cb, goal, None)]"] None show ?thesis by auto
  next
    case (Some e)
    from Cons.IH [of "calls @ [(cb_name cb, goal, Some e)]"] Some show ?thesis by auto
  qed
qed

lemma polling_callbacks_appends:
  "\<exists>new. polling_callbacks cbs goal calls = Inr (calls @ new)
     \<and> map (\<lambda>d. (fst d, fst (snd d))) new = map (\<lambda>cb. (cb_name cb, goal)) cbs"
proof (induction cbs arbitrary: calls)
  case Nil
  then show ?case by simp
next
  case (Cons cb cbs)
  show ?case
  proof (cases "cb_call cb calls goal")
    case None
    from Cons.IH [of "calls @ [(cb_name cb, goal, None)]"] None show ?thesis by auto
  next
    case (Some e)
    from Cons.IH [of "calls @ [(cb_name cb, goal, Some e)]"] Some show ?thesis by auto
  qed
qed

text \<open>
  Claim C6. Whatever the registered callbacks do (return or raise, on this call or on every
  call), both dispatch loops call every registered callback once with the event, in
  registration order, and return normally: the calls made are the calls before, followed by
  one call per callback, in the order of the list.
\<close>

theorem fanout_isolates_consumers:
  "(\<exists>new. notify_goal_callbacks cbs goal calls = Inr (calls @ new)
      \<and> map (\<lambda>d. (fst d, fst (snd d))) new = map (\<lambda>cb. (cb_name cb, goal)) cbs)
   \<and> (\<exists>new. polling_callbacks cbs goal calls = Inr (calls @ new)
      \<and> map (\<lambda>d. (fst d, fst (snd d))) new = map (\<lambda>cb. (cb_name cb, goal)) cbs)"
  using notify_goal_callbacks_appends polling_callbacks_appends by blast

text \<open>
  A consumer that raises on every call, registered before one that returns: both are called,
  in this order, and the loops return.
\<close>

theorem fanout_isolates_consumers_witness:
  "notify_goal_callbacks [broken_consumer, on_goal] (unknown_event (PInt 7) (PInt 39)) [] =
     Inr [(''broken_consumer'', unknown_event (PInt 7) (PInt 39), Some (OtherError ''boom'')),
          (''on_goal'', unknown_event (PInt 7) (PInt 39), None)]
   \<and> polling_callbacks [broken_consumer, on_goal] (polled_event ''Arsenal'' (PInt 2) (PInt 0)) [] =
     Inr [(''broken_consumer'', polled_event ''Arsenal'' (PInt 2) (PInt 0), Some (OtherError ''boom'')),
          (''on_goal'', polled_event ''Arsenal'' (PInt 2) (PInt 0), None)]"
  using fanout_isolates_consumers [of "[broken_consumer, on_goal]" "unknown_event (PInt 7) (PInt 39)" "[]"]
    fanout_isolates_consumers [of "[broken_consumer, on_goal]" "polled_event ''Arsenal'' (PInt 2) (PInt 0)" "[]"]
  by (simp add: broken_consumer_def on_goal_def)

section \<open>Reconnection delay\<close>

text \<open>
  Claim C2. On attempt \<open>n\<close> (the counter after the increment), \<open>n\<close> at most the ceiling,
  with a draw \<open>r\<close> in \<open>[0, 1]\<close> and non-negative base and cap, \<^verbatim>\<open>_handle_reconnection\<close>
  sleeps \<open>d + d * (0.25 * r)\<close> where \<open>d = min (base * 2 ^ (n - 1)) cap\<close>. The jitter
  lies in \<open>[0, 0.25 * d]\<close>; when \<open>base * 2 ^ (n - 1) \<le> cap\<close> the delay lies between
  \<open>base * 2 ^ (n - 1)\<close> and 1.25 times that; and the delay is at most \<open>1.25 * cap\<close>.
\<close>

theorem reconnect_delay_bounds:
  assumes "n = reconnect_attempts s + 1"
    and "n \<le> max_reconnect_attempts s"
    and "0 \<le> r" and "r \<le> 1"
    and "0 \<le> base_reconnect_delay s" and "0 \<le> max_reconnect_delay s"
  shows "\<exists>delay. handle_reconnection s r = (s\<lparr>reconnect_attempts := n\<rparr>, Some delay) \<and>
     (let b = real_of_int (base_reconnect_delay s) * 2 ^ (n - 1);
          cap = real_of_int (max_reconnect_delay s);
          d = min b cap
      in delay = d + d * (0.25 * r) \<and> 0 \<le> d * (0.25 * r) \<and> d * (0.25 * r) \<le> 0.25 * d
         \<and> (b \<le> cap \<longrightarrow> b \<le> delay \<and> delay \<le> b * 1.25)
         \<and> delay \<le> cap * 1.25)"
proof -
  define b where "b = real_of_int (base_reconnect_delay s) * 2 ^ (n - 1)"
  define cap where "cap = real_of_int (max_reconnect_delay s)"
  define d where "d = min b cap"
  have b0: "0 \<le> b" using assms(5) by (simp add: b_def)
  have c0: "0 \<le> cap" using assms(6) by (simp add: cap_def)
  have d0: "0 \<le> d" using b0 c0 by (simp add: d_def)
  have j0: "0 \<le> d * (0.25 * r)" using d0 assms(3) by simp
  have "d * r \<le> d * 1" using d0 assms(4) by (rule mult_left_mono[rotated])
  then have j1: "d * (0.25 * r) \<le> 0.25 * d" by simp
  have dc: "d \<le> cap" by (simp add: d_def)
  have hr: "handle_reconnection s r = (s\<lparr>reconnect_attempts := n\<rparr>, Some (d + d * (0.25 * r)))"
    using assms(1,2) by (simp add: handle_reconnection_def Let_def uniform_def d_def b_def cap_def)
  have up: "d + d * (0.25 * r) \<le> cap * 1.25" using j1 dc c0 by simp
  have "b \<le> cap \<Longrightarrow> d = b" by (simp add: d_def)
  then have mid: "b \<le> cap \<longrightarrow> b \<le> d + d * (0.25 * r) \<and> d + d * (0.25 * r) \<le> b * 1.25"
    using j0 j1 by auto
  show ?thesis
    unfolding Let_def b_def[symmetric] cap_def[symmetric] d_def[symmetric]
    using hr j0 j1 up mid by blast
qed

text \<open>
  The sixth attempt of a fresh listener with the draw 1/2: \<open>2 * 2 ^ 5 = 64\<close> is cut to the
  cap 60, and the jitter is 7.5.
\<close>

theorem reconnect_delay_bounds_witness:
  "(6::nat) = reconnect_attempts ((init_ws '''')\<lparr>reconnect_attempts := 5\<rparr>) + 1
   \<and> 6 \<le> max_reconnect_attempts ((init_ws '''')\<lparr>reconnect_attempts := 5\<rparr>)
   \<and> (0::real) \<le> 1/2 \<and> (1/2::real) \<le> 1
   \<and> 0 \<le> base_reconnect_delay ((init_ws '''')\<lparr>reconnect_attempts := 5\<rparr>)
   \<and> 0 \<le> max_reconnect_delay ((init_ws '''')\<lparr>reconnect_attempts := 5\<rparr>)
   \<and> handle_reconnection ((init_ws '''')\<lparr>reconnect_attempts := 5\<rparr>) (1/2)
       = ((init_ws '''')\<lparr>reconnect_attempts := 6\<rparr>, Some 67.5)"
  using reconnect_delay_bounds [of 6 "(init_ws '''')\<lparr>reconnect_attempts := 5\<rparr>" "1/2"]
  by (auto simp: init_ws_def Let_def)

section \<open>Goal messages\<close>

lemma handle_goal_event_unsupported:
  assumes "dict_get data ''league'' (PDict []) = Inr league"
    and "dict_get league ''id'' PNone = Inr lid"
    and "in_supported_leagues lid \<noteq> Inr True"
  shows "handle_goal_event rt s data calls = (None, s, calls)"
  using assms
  by (auto simp: handle_goal_event_def handle_goal_event_body_def goal_fields_def seq_def
      split: sum.splits)

lemma handle_goal_event_duplicate:
  assumes "goal_fields data = Inr (fixture, league, goal, score, fid, lid, supported)"
    and "goal_key rt fid goal = Inr gid"
    and "gid |\<in>| seen_goals s"
  shows "handle_goal_event rt s data calls = (None, s, calls)"
  using assms
  by (simp add: handle_goal_event_def handle_goal_event_body_def Let_def)

lemma handle_goal_event_admitted:
  assumes "goal_fields data = Inr (fixture, league, goal, score, fid, lid, True)"
    and "goal_key rt fid goal = Inr gid"
    and "gid |\<notin>| seen_goals s"
    and "make_goal_event fid lid fixture league goal score = Inr ev"
  shows "\<exists>new. handle_goal_event rt s data calls =
           (None, s\<lparr>seen_goals := prune_seen rt (finsert gid (seen_goals s))\<rparr>, calls @ new)
         \<and> map (\<lambda>d. (fst d, fst (snd d))) new = map (\<lambda>cb. (cb_name cb, ev)) (goal_callbacks s)"
proof -
  obtain new where n: "notify_goal_callbacks (goal_callbacks s) ev calls = Inr (calls @ new)"
    and m: "map (\<lambda>d. (fst d, fst (snd d))) new = map (\<lambda>cb. (cb_name cb, ev)) (goal_callbacks s)"
    using notify_goal_callbacks_appends by blast
  have "handle_goal_event rt s data calls =
           (None, s\<lparr>seen_goals := prune_seen rt (finsert gid (seen_goals s))\<rparr>, calls @ new)"
    using assms n by (simp add: handle_goal_event_def handle_goal_event_body_def Let_def)
  with m show ?thesis by blast
qed

lemma goal_fields_dicts:
  assumes "goal_fields data = Inr (fixture, league, goal, score, fid, lid, supported)"
  shows "\<exists>f l. fixture = PDict f \<and> league = PDict l"
  using assms
  by (cases fixture; cases league) (auto simp: goal_fields_def seq_def split: sum.splits)

lemma make_goal_event_defaults:
  "\<exists>ev. make_goal_event fid lid (PDict f) (PDict l) (PDict g) (PDict sc) = Inr ev
     \<and> team ev = (case map_of g ''team'' of None \<Rightarrow> PStr ''Unknown'' | Some v \<Rightarrow> v)
     \<and> player ev = (case map_of g ''player'' of None \<Rightarrow> PStr ''Unknown'' | Some v \<Rightarrow> v)
     \<and> minute ev = (case map_of g ''minute'' of None \<Rightarrow> PInt 0 | Some v \<Rightarrow> v)
     \<and> home_score ev = (case map_of sc ''home'' of None \<Rightarrow> PInt 0 | Some v \<Rightarrow> v)
     \<and> away_score ev = (case map_of sc ''away'' of None \<Rightarrow> PInt 0 | Some v \<Rightarrow> v)"
  by (simp add: make_goal_event_def seq_def)

lemma process_message_goal:
  assumes "json_loads rt message = Inr data"
    and "dict_get data ''type'' (PStr []) = Inr (PStr ''goal'')"
  shows "process_message rt s message calls = handle_goal_event rt s data calls"
  using assms
  by (simp add: process_message_def handle_goal_event_def split: prod.splits option.splits)

text \<open>
  Claim C7. A goal message whose league id is not in \<^verbatim>\<open>SUPPORTED_LEAGUES\<close> leaves the
  listener (its dedup set and its active-fixture table with it) as it was and calls no
  callback: the result is the listener and the list of calls that went in.
\<close>

theorem unsupported_league_dropped:
  assumes "dict_get data ''league'' (PDict []) = Inr league"
    and "dict_get league ''id'' PNone = Inr lid"
    and "in_supported_leagues lid \<noteq> Inr True"
  shows "handle_goal_event rt s data calls = (None, s, calls)
     \<and> (json_loads rt message = Inr data \<and> dict_get data ''type'' (PStr []) = Inr (PStr ''goal'')
          \<longrightarrow> process_message rt s message calls = (None, s, calls))"
  using handle_goal_event_unsupported [OF assms] process_message_goal
  by simp

theorem unsupported_league_dropped_witness:
  "dict_get minor_league_goal ''league'' (PDict []) = Inr (PDict [(''id'', PInt 999)])
   \<and> dict_get (PDict [(''id'', PInt 999)]) ''id'' PNone = Inr (PInt 999)
   \<and> in_supported_leagues (PInt 999) \<noteq> Inr True
   \<and> json_loads (example_runtime [(minor_league_frame, minor_league_goal)]) minor_league_frame
       = Inr minor_league_goal
   \<and> dict_get minor_league_goal ''type'' (PStr []) = Inr (PStr ''goal'')
   \<and> process_message (example_runtime [(minor_league_frame, minor_league_goal)])
        ((init_ws '''')\<lparr>goal_callbacks := [on_goal]\<rparr>) minor_league_frame []
       = (None, (init_ws '''')\<lparr>goal_callbacks := [on_goal]\<rparr>, [])"
  using unsupported_league_dropped [of minor_league_goal "PDict [(''id'', PInt 999)]" "PInt 999"
      "example_runtime [(minor_league_frame, minor_league_goal)]"
      "(init_ws '''')\<lparr>goal_callbacks := [on_goal]\<rparr>" "[]" minor_league_frame]
  by (simp add: minor_league_goal_def in_supported_leagues_def SUPPORTED_LEAGUES_def
      example_runtime_def)

text \<open>
  Claim C8. \<^verbatim>\<open>_process_message\<close> never raises: whatever the frame, the exception part of
  its result is \<open>None\<close>. A frame that does not decode, and a decoded value that is not a
  dict or whose type is neither \<^verbatim>\<open>goal\<close> nor \<^verbatim>\<open>fixture_update\<close>, leave the listener
  and the calls as they were. A goal message of a supported league with a new key is
  delivered to every callback, and the event has \<^verbatim>\<open>Unknown\<close> for a missing team or
  player and 0 for a missing minute.
\<close>

theorem process_message_never_raises:
  "fst (process_message rt s message calls) = None
   \<and> (json_loads rt message = Inl e \<longrightarrow> process_message rt s message calls = (None, s, calls))
   \<and> (json_loads rt message = Inr data
        \<and> dict_get data ''type'' (PStr []) \<noteq> Inr (PStr ''goal'')
        \<and> dict_get data ''type'' (PStr []) \<noteq> Inr (PStr ''fixture_update'')
      \<longrightarrow> process_message rt s message calls = (None, s, calls))
   \<and> (json_loads rt message = Inr data
        \<and> dict_get data ''type'' (PStr []) = Inr (PStr ''goal'')
        \<and> goal_fields data = Inr (fixture, league, PDict g, PDict sc, fid, lid, True)
        \<and> goal_key rt fid (PDict g) = Inr gid
        \<and> gid |\<notin>| seen_goals s
      \<longrightarrow> (\<exists>ev new.
            process_message rt s message calls =
              (None, s\<lparr>seen_goals := prune_seen rt (finsert gid (seen_goals s))\<rparr>, calls @ new)
            \<and> map (\<lambda>d. (fst d, fst (snd d))) new = map (\<lambda>cb. (cb_name cb, ev)) (goal_callbacks s)
            \<and> team ev = (case map_of g ''team'' of None \<Rightarrow> PStr ''Unknown'' | Some v \<Rightarrow> v)
            \<and> player ev = (case map_of g ''player'' of None \<Rightarrow> PStr ''Unknown'' | Some v \<Rightarrow> v)
            \<and> minute ev = (case map_of g ''minute'' of None \<Rightarrow> PInt 0 | Some v \<Rightarrow> v)))"
proof (intro conjI impI)
  show "fst (process_message rt s message calls) = None"
    by (simp add: process_message_def split: sum.splits prod.splits option.splits)
next
  assume "json_loads rt message = Inl e"
  then show "process_message rt s message calls = (None, s, calls)"
    by (simp add: process_message_def)
next
  assume "json_loads rt message = Inr data
        \<and> dict_get data ''type'' (PStr []) \<noteq> Inr (PStr ''goal'')
        \<and> dict_get data ''type'' (PStr []) \<noteq> Inr (PStr ''fixture_update'')"
  then show "process_message rt s message calls = (None, s, calls)"
    by (simp add: process_message_def split: sum.splits)
next
  assume a: "json_loads rt message = Inr data
        \<and> dict_get data ''type'' (PStr []) = Inr (PStr ''goal'')
        \<and> goal_fields data = Inr (fixture, league, PDict g, PDict sc, fid, lid, True)
        \<and> goal_key rt fid (PDict g) = Inr gid
        \<and> gid |\<notin>| seen_goals s"
  then obtain f l where fl: "fixture = PDict f" "league = PDict l"
    using goal_fields_dicts by blast
  obtain ev where ev: "make_goal_event fid lid fixture league (PDict g) (PDict sc) = Inr ev"
    and d: "team ev = (case map_of g ''team'' of None \<Rightarrow> PStr ''Unknown'' | Some v \<Rightarrow> v)"
       "player ev = (case map_of g ''player'' of None \<Rightarrow> PStr ''Unknown'' | Some v \<Rightarrow> v)"
       "minute ev = (case map_of g ''minute'' of None \<Rightarrow> PInt 0 | Some v \<Rightarrow> v)"
    using make_goal_event_defaults [of fid lid f l g sc] fl by blast
  from a have pm: "process_message rt s message calls = handle_goal_event rt s data calls"
    using process_message_goal by blast
  from handle_goal_event_admitted [of data fixture league "PDict g" "PDict sc" fid lid rt gid s ev calls]
    a ev
  obtain new where "handle_goal_event rt s data calls =
           (None, s\<lparr>seen_goals := prune_seen rt (finsert gid (seen_goals s))\<rparr>, calls @ new)"
    and "map (\<lambda>d. (fst d, fst (snd d))) new = map (\<lambda>cb. (cb_name cb, ev)) (goal_callbacks s)"
    by blast
  with pm d show "\<exists>ev new.
            process_message rt s message calls =
              (None, s\<lparr>seen_goals := prune_seen rt (finsert gid (seen_goals s))\<rparr>, calls @ new)
            \<and> map (\<lambda>d. (fst d, fst (snd d))) new = map (\<lambda>cb. (cb_name cb, ev)) (goal_callbacks s)
            \<and> team ev = (case map_of g ''team'' of None \<Rightarrow> PStr ''Unknown'' | Some v \<Rightarrow> v)
            \<and> player ev = (case map_of g ''player'' of None \<Rightarrow> PStr ''Unknown'' | Some v \<Rightarrow> v)
            \<and> minute ev = (case map_of g ''minute'' of None \<Rightarrow> PInt 0 | Some v \<Rightarrow> v)"
    by auto
qed

text \<open>
  A frame that is not JSON is dropped; a goal frame with no \<^verbatim>\<open>goal\<close> part is delivered
  with the defaults.
\<close>

theorem process_message_never_raises_witness:
  "json_loads (example_runtime [(bare_goal_frame, bare_goal)]) ''<html>'' = Inl JSONDecodeError
   \<and> process_message (example_runtime [(bare_goal_frame, bare_goal)])
        ((init_ws '''')\<lparr>goal_callbacks := [on_goal]\<rparr>) ''<html>'' []
       = (None, (init_ws '''')\<lparr>goal_callbacks := [on_goal]\<rparr>, [])
   \<and> json_loads (example_runtime [(bare_goal_frame, bare_goal)]) bare_goal_frame = Inr bare_goal
   \<and> dict_get bare_goal ''type'' (PStr []) = Inr (PStr ''goal'')
   \<and> goal_fields bare_goal = Inr (PDict [(''id'', PInt 7)], PDict [(''id'', PInt 39)], PDict [], PDict [],
        PInt 7, PInt 39, True)
   \<and> goal_key (example_runtime [(bare_goal_frame, bare_goal)]) (PInt 7) (PDict []) = Inr ''7_0_unknown''
   \<and> ''7_0_unknown'' |\<notin>| seen_goals ((init_ws '''')\<lparr>goal_callbacks := [on_goal]\<rparr>)
   \<and> process_message (example_runtime [(bare_goal_frame, bare_goal)])
        ((init_ws '''')\<lparr>goal_callbacks := [on_goal]\<rparr>) bare_goal_frame []
       = (None, (init_ws '''')\<lparr>goal_callbacks := [on_goal], seen_goals := {|''7_0_unknown''|}\<rparr>,
          [(''on_goal'', unknown_event (PInt 7) (PInt 39), None)])"
  using process_message_never_raises [of "example_runtime [(bare_goal_frame, bare_goal)]"
      "(init_ws '''')\<lparr>goal_callbacks := [on_goal]\<rparr>" bare_goal_frame "[]" JSONDecodeError bare_goal
      "PDict [(''id'', PInt 7)]" "PDict [(''id'', PInt 39)]" "[]" "[]" "PInt 7" "PInt 39" "''7_0_unknown''"]
    process_message_never_raises [of "example_runtime [(bare_goal_frame, bare_goal)]"
      "(init_ws '''')\<lparr>goal_callbacks := [on_goal]\<rparr>" "''<html>''" "[]" JSONDecodeError]
  by (simp add: process_message_def example_runtime_def bare_goal_def handle_goal_event_def handle_goal_event_body_def
     goal_fields_def goal_key_def goal_id_def seq_def in_supported_leagues_def SUPPORTED_LEAGUES_def
     prune_seen_def make_goal_event_def init_ws_def on_goal_def show_int_def show_nat.simps digit_char_def
     fcard_finsert_if fcard_fempty unknown_event_def bare_goal_frame_def)

section \<open>Exhaustion of the reconnect attempts\<close>

lemma start_loop_not_raised: "start_loop rt s script calls sleeps \<noteq> Raised e x"
  by (induction rt s script calls sleeps rule: start_loop.induct)
     (auto split: prod.splits option.splits)

lemma run_websocket_keeps_flag:
  "run_websocket rt h script calls = Returned (h', calls')
     \<or> run_websocket rt h script calls = Pending (h', calls')
    \<Longrightarrow> use_polling_fallback h' = use_polling_fallback h"
  using start_loop_not_raised [of rt "(ws h)\<lparr>running := True\<rparr>" script calls "[]"]
  by (auto simp: run_websocket_def start_def split: completion.splits)

lemma health_monitor_idle:
  "\<not> use_polling_fallback h \<Longrightarrow>
     health_monitor rt h replies calls =
       (if h_running h then Pending (h, calls) else Returned (h, calls))"
  by (induction replies) auto

text \<open>
  Claim C1, on the code. Eleven refused connections in a row take the reconnect counter to
  11, past the ceiling of 10: \<^verbatim>\<open>_handle_reconnection\<close> clears \<^verbatim>\<open>running\<close>, the loop of
  \<^verbatim>\<open>start\<close> ends and \<^verbatim>\<open>start\<close> returns normally. So the \<^verbatim>\<open>except\<close> of
  \<^verbatim>\<open>_run_websocket\<close> is not entered and \<^verbatim>\<open>use_polling_fallback\<close> stays \<open>False\<close>; the
  health monitor, given two snapshots with a home goal between them, polls nothing and calls
  no callback. With the flag set, the same two snapshots give one call of the callback.
\<close>

theorem exhaustion_does_not_activate_fallback:
  "run_websocket (example_runtime []) started_hybrid eleven_refusals [] =
     Returned (started_hybrid\<lparr>ws := (ws started_hybrid)\<lparr>running := False, reconnect_attempts := 11\<rparr>\<rparr>, [])
   \<and> use_polling_fallback
        (started_hybrid\<lparr>ws := (ws started_hybrid)\<lparr>running := False, reconnect_attempts := 11\<rparr>\<rparr>) = False
   \<and> health_monitor (example_runtime [])
        (started_hybrid\<lparr>ws := (ws started_hybrid)\<lparr>running := False, reconnect_attempts := 11\<rparr>\<rparr>)
        [live_reply (PInt 1) PNone, live_reply (PInt 2) PNone] [] =
     Pending (started_hybrid\<lparr>ws := (ws started_hybrid)\<lparr>running := False, reconnect_attempts := 11\<rparr>\<rparr>, [])
   \<and> health_monitor (example_runtime [])
        (started_hybrid\<lparr>ws := (ws started_hybrid)\<lparr>running := False, reconnect_attempts := 11\<rparr>,
           use_polling_fallback := True\<rparr>)
        [live_reply (PInt 1) PNone, live_reply (PInt 2) PNone] [] =
     Pending (started_hybrid\<lparr>ws := (ws started_hybrid)\<lparr>running := False, reconnect_attempts := 11\<rparr>,
           use_polling_fallback := True,
           previous_scores := [PInt 501 \<mapsto> (PInt 2, PInt 0)]\<rparr>,
        [(''on_goal'', polled_event ''Arsenal'' (PInt 2) (PInt 0), None)])"
  by (simp add: run_websocket_def start_def eleven_refusals_def refused_def started_hybrid_def
      h_register_goal_callback_def init_hybrid_def init_ws_def register_goal_callback_def
      connect_and_listen_def handle_reconnection_def Let_def uniform_def
      live_reply_def live_fixture_def poll_for_goals_def poll_fixture_def py_gt_def seq_def
      in_supported_leagues_def SUPPORTED_LEAGUES_def py_or0_def emit_polling_goal_def
      polling_goal_event_def polled_event_def on_goal_def)

section \<open>Polling\<close>

lemma polling_goal_event_fields:
  assumes "polling_goal_event fixture side = Inr ev"
  shows "player ev = PStr ''Unknown (from polling)''
    \<and> (\<exists>fx st. subscript fixture ''fixture'' = Inr fx \<and> subscript fx ''status'' = Inr st
          \<and> dict_get st ''elapsed'' (PInt 0) = Inr (minute ev))
    \<and> (\<exists>gl gh ga. subscript fixture ''goals'' = Inr gl \<and> subscript gl ''home'' = Inr gh
          \<and> subscript gl ''away'' = Inr ga \<and> home_score ev = py_or0 gh \<and> away_score ev = py_or0 ga)
    \<and> (\<exists>teams t. subscript fixture ''teams'' = Inr teams \<and> subscript teams side = Inr t
          \<and> subscript t ''name'' = Inr (team ev))"
  using assms
  by (auto simp: polling_goal_event_def seq_def split: sum.splits)

lemma poll_loop_append:
  "poll_loop rt h0 pre calls0 = (None, h, calls) \<Longrightarrow>
     poll_loop rt h0 (pre @ rest) calls0 = poll_loop rt h rest calls"
  by (induction pre arbitrary: h0 calls0) (auto split: prod.splits option.splits)

lemma emit_polling_goal_appends:
  assumes "polling_goal_event fixture side = Inr ev"
  shows "\<exists>new. emit_polling_goal h fixture side calls = Inr (calls @ new)
     \<and> map (\<lambda>d. (fst d, fst (snd d))) new = map (\<lambda>cb. (cb_name cb, ev)) (h_goal_callbacks h)"
  using assms polling_callbacks_appends [of "h_goal_callbacks h" ev calls]
  by (simp add: emit_polling_goal_def seq_def)

text \<open>
  Claim C5, as amended. When the loop of \<^verbatim>\<open>_poll_for_goals\<close> reaches (after the passes
  for \<open>pre\<close>, none of which raised) a fixture of a supported league whose id is in the
  snapshot table, with numeric scores before and now, and the event can be built from the
  fixture in case a score went up, then the pass calls every callback once with the
  home-goal event exactly when the home score went up, then once with the away-goal event
  exactly when the away score went up, and nothing else, whatever the size of the increase;
  the events have the player \<^verbatim>\<open>Unknown (from polling)\<close>, the minute of the
  \<^verbatim>\<open>elapsed\<close> field, the current scores and the name of the side that scored; and the
  table holds the current scores for the fixture afterwards, also when no score went up. The
  loop goes on with the rest of the fixtures from there.
\<close>

theorem polling_emits_per_increased_column:
  assumes "poll_loop rt h0 pre calls0 = (None, h, calls)"
    and "subscript fixture ''fixture'' = Inr fx" and "subscript fx ''id'' = Inr fid"
    and "hash_key fid = Inr k"
    and "subscript fixture ''league'' = Inr lg" and "subscript lg ''id'' = Inr lid"
    and "in_supported_leagues lid = Inr True"
    and "subscript fixture ''goals'' = Inr gl"
    and "subscript gl ''home'' = Inr gh" and "subscript gl ''away'' = Inr ga"
    and "py_or0 gh = PInt hs" and "py_or0 ga = PInt as"
    and "previous_scores h k = Some (PInt ph, PInt pa)"
    and "hs > ph \<or> as > pa \<longrightarrow>
           polling_goal_event fixture ''home'' = Inr evh
         \<and> polling_goal_event fixture ''away'' = Inr eva"
  shows "\<exists>new.
       poll_fixture rt h fixture calls =
         (None, h\<lparr>previous_scores := (previous_scores h)(k \<mapsto> (PInt hs, PInt as))\<rparr>, calls @ new)
     \<and> map (\<lambda>d. (fst d, fst (snd d))) new =
         (if hs > ph then map (\<lambda>cb. (cb_name cb, evh)) (h_goal_callbacks h) else [])
         @ (if as > pa then map (\<lambda>cb. (cb_name cb, eva)) (h_goal_callbacks h) else [])
     \<and> (hs > ph \<or> as > pa \<longrightarrow>
           player evh = PStr ''Unknown (from polling)'' \<and> player eva = PStr ''Unknown (from polling)''
         \<and> (\<exists>st. subscript fx ''status'' = Inr st
               \<and> dict_get st ''elapsed'' (PInt 0) = Inr (minute evh)
               \<and> dict_get st ''elapsed'' (PInt 0) = Inr (minute eva))
         \<and> (\<exists>teams th ta. subscript fixture ''teams'' = Inr teams
               \<and> subscript teams ''home'' = Inr th \<and> subscript th ''name'' = Inr (team evh)
               \<and> subscript teams ''away'' = Inr ta \<and> subscript ta ''name'' = Inr (team eva))
         \<and> home_score evh = PInt hs \<and> away_score evh = PInt as
         \<and> home_score eva = PInt hs \<and> away_score eva = PInt as)
     \<and> poll_loop rt h0 (pre @ fixture # post) calls0 =
         poll_loop rt (h\<lparr>previous_scores := (previous_scores h)(k \<mapsto> (PInt hs, PInt as))\<rparr>)
           post (calls @ new)"
proof -
  let ?h' = "h\<lparr>previous_scores := (previous_scores h)(k \<mapsto> (PInt hs, PInt as))\<rparr>"
  obtain new1 where n1: "(if hs > ph then emit_polling_goal h fixture ''home'' calls else Inr calls)
        = Inr (calls @ new1)"
    and m1: "map (\<lambda>d. (fst d, fst (snd d))) new1 =
        (if hs > ph then map (\<lambda>cb. (cb_name cb, evh)) (h_goal_callbacks h) else [])"
  proof (cases "hs > ph")
    case True
    with assms(14) have "polling_goal_event fixture ''home'' = Inr evh" by simp
    from emit_polling_goal_appends [OF this, of h calls] True that show ?thesis by auto
  next
    case False
    with that [of "[]"] show ?thesis by simp
  qed
  obtain new2 where n2: "(if as > pa then emit_polling_goal h fixture ''away'' (calls @ new1)
        else Inr (calls @ new1)) = Inr ((calls @ new1) @ new2)"
    and m2: "map (\<lambda>d. (fst d, fst (snd d))) new2 =
        (if as > pa then map (\<lambda>cb. (cb_name cb, eva)) (h_goal_callbacks h) else [])"
  proof (cases "as > pa")
    case True
    with assms(14) have "polling_goal_event fixture ''away'' = Inr eva" by simp
    from emit_polling_goal_appends [OF this, of h "calls @ new1"] True that show ?thesis by auto
  next
    case False
    with that [of "[]"] show ?thesis by simp
  qed
  have pf: "poll_fixture rt h fixture calls = (None, ?h', calls @ (new1 @ new2))"
    using assms(2-13) n1 n2 by (simp add: poll_fixture_def py_gt_def seq_def)
  have fields: "hs > ph \<or> as > pa \<longrightarrow>
           player evh = PStr ''Unknown (from polling)'' \<and> player eva = PStr ''Unknown (from polling)''
         \<and> (\<exists>st. subscript fx ''status'' = Inr st
               \<and> dict_get st ''elapsed'' (PInt 0) = Inr (minute evh)
               \<and> dict_get st ''elapsed'' (PInt 0) = Inr (minute eva))
         \<and> (\<exists>teams th ta. subscript fixture ''teams'' = Inr teams
               \<and> subscript teams ''home'' = Inr th \<and> subscript th ''name'' = Inr (team evh)
               \<and> subscript teams ''away'' = Inr ta \<and> subscript ta ''name'' = Inr (team eva))
         \<and> home_score evh = PInt hs \<and> away_score evh = PInt as
         \<and> home_score eva = PInt hs \<and> away_score eva = PInt as"
  proof
    assume "hs > ph \<or> as > pa"
    with assms(14) have eh: "polling_goal_event fixture ''home'' = Inr evh"
      and ea: "polling_goal_event fixture ''away'' = Inr eva" by simp_all
    from polling_goal_event_fields [OF eh] polling_goal_event_fields [OF ea]
      assms(2,8,9,10,11,12)
    show "player evh = PStr ''Unknown (from polling)'' \<and> player eva = PStr ''Unknown (from polling)''
         \<and> (\<exists>st. subscript fx ''status'' = Inr st
               \<and> dict_get st ''elapsed'' (PInt 0) = Inr (minute evh)
               \<and> dict_get st ''elapsed'' (PInt 0) = Inr (minute eva))
         \<and> (\<exists>teams th ta. subscript fixture ''teams'' = Inr teams
               \<and> subscript teams ''home'' = Inr th \<and> subscript th ''name'' = Inr (team evh)
               \<and> subscript teams ''away'' = Inr ta \<and> subscript ta ''name'' = Inr (team eva))
         \<and> home_score evh = PInt hs \<and> away_score evh = PInt as
         \<and> home_score eva = PInt hs \<and> away_score eva = PInt as"
      by auto
  qed
  have loop: "poll_loop rt h0 (pre @ fixture # post) calls0 = poll_loop rt ?h' post (calls @ (new1 @ new2))"
    using poll_loop_append [OF assms(1), of "fixture # post"] pf by simp
  have "map (\<lambda>d. (fst d, fst (snd d))) (new1 @ new2) =
         (if hs > ph then map (\<lambda>cb. (cb_name cb, evh)) (h_goal_callbacks h) else [])
         @ (if as > pa then map (\<lambda>cb. (cb_name cb, eva)) (h_goal_callbacks h) else [])"
    using m1 m2 by simp
  with pf fields loop show ?thesis by blast
qed

text \<open>
  The snapshot 1-0 is followed by 3-0 (away still null): one home-goal event for the jump
  of two, none for the away side, and the table moves to 3-0.
\<close>

theorem polling_emits_per_increased_column_witness:
  "poll_loop (example_runtime []) (started_hybrid\<lparr>previous_scores := [PInt 501 \<mapsto> (PInt 1, PInt 0)]\<rparr>) [] []
      = (None, started_hybrid\<lparr>previous_scores := [PInt 501 \<mapsto> (PInt 1, PInt 0)]\<rparr>, [])
   \<and> subscript (live_fixture (PInt 3) PNone) ''fixture''
      = Inr (PDict [(''id'', PInt 501), (''status'', PDict [(''elapsed'', PInt 63)])])
   \<and> subscript (PDict [(''id'', PInt 501), (''status'', PDict [(''elapsed'', PInt 63)])]) ''id''
      = Inr (PInt 501)
   \<and> hash_key (PInt 501) = Inr (PInt 501)
   \<and> subscript (live_fixture (PInt 3) PNone) ''league''
      = Inr (PDict [(''id'', PInt 39), (''name'', PStr ''Premier League'')])
   \<and> subscript (PDict [(''id'', PInt 39), (''name'', PStr ''Premier League'')]) ''id'' = Inr (PInt 39)
   \<and> in_supported_leagues (PInt 39) = Inr True
   \<and> subscript (live_fixture (PInt 3) PNone) ''goals''
      = Inr (PDict [(''home'', PInt 3), (''away'', PNone)])
   \<and> subscript (PDict [(''home'', PInt 3), (''away'', PNone)]) ''home'' = Inr (PInt 3)
   \<and> subscript (PDict [(''home'', PInt 3), (''away'', PNone)]) ''away'' = Inr PNone
   \<and> py_or0 (PInt 3) = PInt 3 \<and> py_or0 PNone = PInt 0
   \<and> previous_scores (started_hybrid\<lparr>previous_scores := [PInt 501 \<mapsto> (PInt 1, PInt 0)]\<rparr>) (PInt 501)
      = Some (PInt 1, PInt 0)
   \<and> (3::int) > 1
   \<and> polling_goal_event (live_fixture (PInt 3) PNone) ''home''
      = Inr (polled_event ''Arsenal'' (PInt 3) (PInt 0))
   \<and> polling_goal_event (live_fixture (PInt 3) PNone) ''away''
      = Inr (polled_event ''Chelsea'' (PInt 3) (PInt 0))
   \<and> poll_fixture (example_runtime [])
        (started_hybrid\<lparr>previous_scores := [PInt 501 \<mapsto> (PInt 1, PInt 0)]\<rparr>)
        (live_fixture (PInt 3) PNone) []
      = (None, started_hybrid\<lparr>previous_scores := [PInt 501 \<mapsto> (PInt 3, PInt 0)]\<rparr>,
         [(''on_goal'', polled_event ''Arsenal'' (PInt 3) (PInt 0), None)])"
  using polling_emits_per_increased_column [of "example_runtime []"
      "started_hybrid\<lparr>previous_scores := [PInt 501 \<mapsto> (PInt 1, PInt 0)]\<rparr>" "[]" "[]"
      "started_hybrid\<lparr>previous_scores := [PInt 501 \<mapsto> (PInt 1, PInt 0)]\<rparr>" "[]"
      "live_fixture (PInt 3) PNone"
      "PDict [(''id'', PInt 501), (''status'', PDict [(''elapsed'', PInt 63)])]" "PInt 501" "PInt 501"
      "PDict [(''id'', PInt 39), (''name'', PStr ''Premier League'')]" "PInt 39"
      "PDict [(''home'', PInt 3), (''away'', PNone)]" "PInt 3" PNone 3 0 1 0
      "polled_event ''Arsenal'' (PInt 3) (PInt 0)" "polled_event ''Chelsea'' (PInt 3) (PInt 0)" "[]"]
  by (simp add: live_fixture_def in_supported_leagues_def SUPPORTED_LEAGUES_def py_or0_def
      started_hybrid_def h_register_goal_callback_def init_hybrid_def init_ws_def
      register_goal_callback_def polling_goal_event_def polled_event_def seq_def
      poll_fixture_def py_gt_def emit_polling_goal_def on_goal_def)

text \<open>
  Claim C5 as stated fails in two ways, with fixture 501 of a supported league in the table
  at 1-0. Polled at 2-0 without its \<^verbatim>\<open>teams\<close> part, the pass raises while it builds the
  event: no callback is called and the table still has 1-0. Polled complete at 2-0, but
  after a fixture that has only its id, it is not reached: the pass for the first fixture
  raises, the cycle ends, no callback is called and the table still has 1-0.
\<close>

theorem polling_counterexample:
  "poll_fixture (example_runtime [])
      (started_hybrid\<lparr>previous_scores := [PInt 501 \<mapsto> (PInt 1, PInt 0)]\<rparr>)
      fixture_without_teams []
     = (Some KeyError, started_hybrid\<lparr>previous_scores := [PInt 501 \<mapsto> (PInt 1, PInt 0)]\<rparr>, [])
   \<and> poll_for_goals (example_runtime [])
      (started_hybrid\<lparr>previous_scores := [PInt 501 \<mapsto> (PInt 1, PInt 0)]\<rparr>)
      (Reply 200 (Inr (PDict [(''response'', PList [fixture_without_teams])]))) []
     = (None, started_hybrid\<lparr>previous_scores := [PInt 501 \<mapsto> (PInt 1, PInt 0)]\<rparr>, [])
   \<and> poll_for_goals (example_runtime [])
      (started_hybrid\<lparr>previous_scores := [PInt 501 \<mapsto> (PInt 1, PInt 0)]\<rparr>)
      (Reply 200 (Inr (PDict [(''response'', PList [fixture_id_only, live_fixture (PInt 2) PNone])]))) []
     = (None, started_hybrid\<lparr>previous_scores := [PInt 501 \<mapsto> (PInt 1, PInt 0)]\<rparr>, [])
   \<and> poll_for_goals (example_runtime [])
      (started_hybrid\<lparr>previous_scores := [PInt 501 \<mapsto> (PInt 1, PInt 0)]\<rparr>)
      (Reply 200 (Inr (PDict [(''response'', PList [live_fixture (PInt 2) PNone])]))) []
     = (None, started_hybrid\<lparr>previous_scores := [PInt 501 \<mapsto> (PInt 2, PInt 0)]\<rparr>,
        [(''on_goal'', polled_event ''Arsenal'' (PInt 2) (PInt 0), None)])"
  by (simp add: live_fixture_def fixture_without_teams_def fixture_id_only_def
      in_supported_leagues_def SUPPORTED_LEAGUES_def py_or0_def
      started_hybrid_def h_register_goal_callback_def init_hybrid_def init_ws_def
      register_goal_callback_def polling_goal_event_def polled_event_def seq_def
      poll_for_goals_def poll_fixture_def py_gt_def emit_polling_goal_def on_goal_def)

section \<open>Ranges of the event fields\<close>

lemma make_goal_event_fields:
  assumes "make_goal_event fid lid fixture league goal score = Inr ev"
  shows "dict_get goal ''minute'' (PInt 0) = Inr (minute ev)
     \<and> dict_get score ''home'' (PInt 0) = Inr (home_score ev)
     \<and> dict_get score ''away'' (PInt 0) = Inr (away_score ev)"
  using assms
  by (auto simp: make_goal_event_def seq_def split: sum.splits)

lemma handle_goal_event_calls:
  assumes "handle_goal_event rt s data calls = (out, s', calls')"
  shows "\<exists>new. calls' = calls @ new \<and>
     (new = [] \<or> (\<exists>fixture league goal score fid lid ev.
         goal_fields data = Inr (fixture, league, goal, score, fid, lid, True)
       \<and> make_goal_event fid lid fixture league goal score = Inr ev
       \<and> map (\<lambda>d. (fst d, fst (snd d))) new = map (\<lambda>cb. (cb_name cb, ev)) (goal_callbacks s)))"
proof (cases "goal_fields data")
  case (Inl e)
  with assms show ?thesis
    by (auto simp: handle_goal_event_def handle_goal_event_body_def)
next
  case (Inr t)
  obtain fixture league goal score fid lid supported
    where t: "t = (fixture, league, goal, score, fid, lid, supported)"
    by (cases t) auto
  show ?thesis
  proof (cases "supported \<and> (\<exists>gid. goal_key rt fid goal = Inr gid \<and> gid |\<notin>| seen_goals s)
      \<and> (\<exists>ev. make_goal_event fid lid fixture league goal score = Inr ev)")
    case True
    then obtain gid ev where g: "goal_key rt fid goal = Inr gid" "gid |\<notin>| seen_goals s"
      and ev: "make_goal_event fid lid fixture league goal score = Inr ev"
      and sup: "supported" by blast
    from handle_goal_event_admitted [of data fixture league goal score fid lid rt gid s ev calls]
      Inr t sup g ev
    obtain new where "handle_goal_event rt s data calls =
           (None, s\<lparr>seen_goals := prune_seen rt (finsert gid (seen_goals s))\<rparr>, calls @ new)"
      and "map (\<lambda>d. (fst d, fst (snd d))) new = map (\<lambda>cb. (cb_name cb, ev)) (goal_callbacks s)"
      by auto
    with assms Inr t sup ev show ?thesis by auto
  next
    case False
    with assms Inr t have "calls' = calls"
      by (auto simp: handle_goal_event_def handle_goal_event_body_def Let_def
          split: sum.splits if_splits)
    then show ?thesis by simp
  qed
qed

text \<open>
  Claim C9, as amended. Every event that a goal message brings to the callbacks has the
  minute \<^verbatim>\<open>goal.get('minute', 0)\<close> and the scores \<^verbatim>\<open>score.get('home', 0)\<close> and
  \<^verbatim>\<open>score.get('away', 0)\<close> of that message; every event that the polling path brings to
  the callbacks has the minute \<^verbatim>\<open>status.get('elapsed', 0)\<close> and the scores
  \<^verbatim>\<open>goals['home'] or 0\<close> and \<^verbatim>\<open>goals['away'] or 0\<close> of the polled fixture. The values
  are passed on as they come.
\<close>

theorem delivered_event_carries_payload_values:
  "(handle_goal_event rt s data calls = (out, s', calls') \<longrightarrow>
      (\<exists>new. calls' = calls @ new \<and>
         (\<forall>d \<in> set new. \<exists>fixture league goal score fid lid.
              goal_fields data = Inr (fixture, league, goal, score, fid, lid, True)
            \<and> dict_get goal ''minute'' (PInt 0) = Inr (minute (fst (snd d)))
            \<and> dict_get score ''home'' (PInt 0) = Inr (home_score (fst (snd d)))
            \<and> dict_get score ''away'' (PInt 0) = Inr (away_score (fst (snd d))))))
   \<and> (emit_polling_goal h polled side pcalls = Inr pcalls' \<longrightarrow>
      (\<exists>new. pcalls' = pcalls @ new \<and>
         (\<forall>d \<in> set new. \<exists>fx st gl gh ga.
              subscript polled ''fixture'' = Inr fx \<and> subscript fx ''status'' = Inr st
            \<and> dict_get st ''elapsed'' (PInt 0) = Inr (minute (fst (snd d)))
            \<and> subscript polled ''goals'' = Inr gl
            \<and> subscript gl ''home'' = Inr gh \<and> subscript gl ''away'' = Inr ga
            \<and> home_score (fst (snd d)) = py_or0 gh
            \<and> away_score (fst (snd d)) = py_or0 ga)))"
proof (intro conjI impI)
  assume a: "handle_goal_event rt s data calls = (out, s', calls')"
  from handle_goal_event_calls [OF a] obtain new where c: "calls' = calls @ new"
    and n: "new = [] \<or> (\<exists>fixture league goal score fid lid ev.
         goal_fields data = Inr (fixture, league, goal, score, fid, lid, True)
       \<and> make_goal_event fid lid fixture league goal score = Inr ev
       \<and> map (\<lambda>d. (fst d, fst (snd d))) new = map (\<lambda>cb. (cb_name cb, ev)) (goal_callbacks s))"
    by blast
  have "\<forall>d \<in> set new. \<exists>fixture league goal score fid lid.
              goal_fields data = Inr (fixture, league, goal, score, fid, lid, True)
            \<and> dict_get goal ''minute'' (PInt 0) = Inr (minute (fst (snd d)))
            \<and> dict_get score ''home'' (PInt 0) = Inr (home_score (fst (snd d)))
            \<and> dict_get score ''away'' (PInt 0) = Inr (away_score (fst (snd d)))"
  proof
    fix d assume d: "d \<in> set new"
    then have "new \<noteq> []" by auto
    with n obtain fixture league goal score fid lid ev where
      gf: "goal_fields data = Inr (fixture, league, goal, score, fid, lid, True)"
      and ev: "make_goal_event fid lid fixture league goal score = Inr ev"
      and m: "map (\<lambda>d. (fst d, fst (snd d))) new = map (\<lambda>cb. (cb_name cb, ev)) (goal_callbacks s)"
      by blast
    from d have "(fst d, fst (snd d)) \<in> set (map (\<lambda>d. (fst d, fst (snd d))) new)" by force
    with m have "fst (snd d) = ev" by auto
    with gf make_goal_event_fields [OF ev]
    show "\<exists>fixture league goal score fid lid.
              goal_fields data = Inr (fixture, league, goal, score, fid, lid, True)
            \<and> dict_get goal ''minute'' (PInt 0) = Inr (minute (fst (snd d)))
            \<and> dict_get score ''home'' (PInt 0) = Inr (home_score (fst (snd d)))
            \<and> dict_get score ''away'' (PInt 0) = Inr (away_score (fst (snd d)))"
      by blast
  qed
  with c show "\<exists>new. calls' = calls @ new \<and>
         (\<forall>d \<in> set new. \<exists>fixture league goal score fid lid.
              goal_fields data = Inr (fixture, league, goal, score, fid, lid, True)
            \<and> dict_get goal ''minute'' (PInt 0) = Inr (minute (fst (snd d)))
            \<and> dict_get score ''home'' (PInt 0) = Inr (home_score (fst (snd d)))
            \<and> dict_get score ''away'' (PInt 0) = Inr (away_score (fst (snd d))))"
    by blast
next
  assume a: "emit_polling_goal h polled side pcalls = Inr pcalls'"
  then obtain ev where ev: "polling_goal_event polled side = Inr ev"
    by (auto simp: emit_polling_goal_def seq_def split: sum.splits)
  from emit_polling_goal_appends [OF ev, of h pcalls] a
  obtain new where c: "pcalls' = pcalls @ new"
    and m: "map (\<lambda>d. (fst d, fst (snd d))) new = map (\<lambda>cb. (cb_name cb, ev)) (h_goal_callbacks h)"
    by auto
  have "\<forall>d \<in> set new. \<exists>fx st gl gh ga.
              subscript polled ''fixture'' = Inr fx \<and> subscript fx ''status'' = Inr st
            \<and> dict_get st ''elapsed'' (PInt 0) = Inr (minute (fst (snd d)))
            \<and> subscript polled ''goals'' = Inr gl
            \<and> subscript gl ''home'' = Inr gh \<and> subscript gl ''away'' = Inr ga
            \<and> home_score (fst (snd d)) = py_or0 gh
            \<and> away_score (fst (snd d)) = py_or0 ga"
  proof
    fix d assume d: "d \<in> set new"
    then have "(fst d, fst (snd d)) \<in> set (map (\<lambda>d. (fst d, fst (snd d))) new)" by force
    with m have "fst (snd d) = ev" by auto
    with polling_goal_event_fields [OF ev]
    show "\<exists>fx st gl gh ga.
              subscript polled ''fixture'' = Inr fx \<and> subscript fx ''status'' = Inr st
            \<and> dict_get st ''elapsed'' (PInt 0) = Inr (minute (fst (snd d)))
            \<and> subscript polled ''goals'' = Inr gl
            \<and> subscript gl ''home'' = Inr gh \<and> subscript gl ''away'' = Inr ga
            \<and> home_score (fst (snd d)) = py_or0 gh
            \<and> away_score (fst (snd d)) = py_or0 ga"
      by blast
  qed
  with c show "\<exists>new. pcalls' = pcalls @ new \<and>
         (\<forall>d \<in> set new. \<exists>fx st gl gh ga.
              subscript polled ''fixture'' = Inr fx \<and> subscript fx ''status'' = Inr st
            \<and> dict_get st ''elapsed'' (PInt 0) = Inr (minute (fst (snd d)))
            \<and> subscript polled ''goals'' = Inr gl
            \<and> subscript gl ''home'' = Inr gh \<and> subscript gl ''away'' = Inr ga
            \<and> home_score (fst (snd d)) = py_or0 gh
            \<and> away_score (fst (snd d)) = py_or0 ga)"
    by blast
qed

text \<open>
  A goal message with minute 50 at 1-0 and a polled fixture at 3-0 in minute 63: the events
  delivered carry these values.
\<close>

theorem delivered_event_carries_payload_values_witness:
  "handle_goal_event (example_runtime []) listening minute_50_goal [] =
     (None, listening\<lparr>seen_goals := {|''7_50_Rice''|}\<rparr>,
      [(''on_goal'', stream_event 7 (PStr ''Rice'') (PInt 50) (PInt 1) (PInt 0), None)])
   \<and> emit_polling_goal started_hybrid (live_fixture (PInt 3) PNone) ''home'' [] =
      Inr [(''on_goal'', polled_event ''Arsenal'' (PInt 3) (PInt 0), None)]"
  using delivered_event_carries_payload_values [of "example_runtime []" listening minute_50_goal "[]"
      None "listening\<lparr>seen_goals := {|''7_50_Rice''|}\<rparr>"
      "[(''on_goal'', stream_event 7 (PStr ''Rice'') (PInt 50) (PInt 1) (PInt 0), None)]"
      started_hybrid "live_fixture (PInt 3) PNone" "''home''" "[]"
      "[(''on_goal'', polled_event ''Arsenal'' (PInt 3) (PInt 0), None)]"]
  by (simp add: example_runtime_def minute_50_goal_def goal_message_def listening_def
     handle_goal_event_def handle_goal_event_body_def
     goal_fields_def goal_key_def goal_id_def seq_def in_supported_leagues_def SUPPORTED_LEAGUES_def
     prune_seen_def make_goal_event_def init_ws_def on_goal_def show_int_def show_nat.simps digit_char_def
     fcard_finsert_if fcard_fempty stream_event_def
     live_fixture_def py_or0_def started_hybrid_def h_register_goal_callback_def init_hybrid_def
     register_goal_callback_def polling_goal_event_def polled_event_def emit_polling_goal_def)

text \<open>
  Claim C9 as stated fails: the stream path delivers a goal of minute 200 with an away score
  of -1, and after an event with home score 2 an event of the same fixture with home
  score 1.
\<close>

theorem event_ranges_counterexample:
  "listen (example_runtime [(minute_200_frame, minute_200_goal), (minute_50_frame, minute_50_goal)])
      listening [minute_200_frame, minute_50_frame] None [] =
     (None, listening\<lparr>seen_goals := {|''7_50_Rice'', ''7_200_Saka''|}\<rparr>,
      [(''on_goal'', stream_event 7 (PStr ''Saka'') (PInt 200) (PInt 2) (PInt (- 1)), None),
       (''on_goal'', stream_event 7 (PStr ''Rice'') (PInt 50) (PInt 1) (PInt 0), None)])
   \<and> \<not> spec_minute_ok (minute (stream_event 7 (PStr ''Saka'') (PInt 200) (PInt 2) (PInt (- 1))))
   \<and> \<not> spec_score_ok (away_score (stream_event 7 (PStr ''Saka'') (PInt 200) (PInt 2) (PInt (- 1))))
   \<and> home_score (stream_event 7 (PStr ''Saka'') (PInt 200) (PInt 2) (PInt (- 1))) = PInt 2
   \<and> home_score (stream_event 7 (PStr ''Rice'') (PInt 50) (PInt 1) (PInt 0)) = PInt 1"
  by (simp add: example_runtime_def minute_50_goal_def minute_200_goal_def goal_message_def
     listening_def process_message_def handle_goal_event_def handle_goal_event_body_def
     goal_fields_def goal_key_def goal_id_def seq_def in_supported_leagues_def SUPPORTED_LEAGUES_def
     prune_seen_def make_goal_event_def init_ws_def on_goal_def show_int_def show_nat.simps digit_char_def
     fcard_finsert_if fcard_fempty stream_event_def minute_200_frame_def minute_50_frame_def)

section \<open>Pruning of the dedup set\<close>

lemma replicate_less: "i < j \<Longrightarrow> replicate i (c::char) < replicate j c"
proof (induction i arbitrary: j)
  case 0
  then obtain j' where "j = Suc j'" by (cases j) auto
  then show ?case by simp
next
  case (Suc i)
  then obtain j' where j: "j = Suc j'" "i < j'" by (cases j) auto
  with Suc.IH [of j'] show ?case by simp
qed

lemma crowded_key_less: "i < j \<Longrightarrow> crowded_key i < crowded_key j"
  using replicate_less [of i j "CHR ''z''"] by (simp add: crowded_key_def)

lemma crowded_keys_sorted: "sorted_wrt (<) (map crowded_key [m..<n])"
proof -
  have "sorted_wrt (\<lambda>i j. crowded_key i < crowded_key j) [m..<n]"
    by (rule sorted_wrt_mono_rel [of _ "(<)"]) (auto simp: crowded_key_less)
  then show ?thesis by (simp add: sorted_wrt_map)
qed

lemma sorted_crowded_seen: "sorted_list_of_fset crowded_seen = map crowded_key [1..<1001]"
proof -
  have "sorted (map crowded_key [1..<1001]) \<and> distinct (map crowded_key [1..<1001])"
    using crowded_keys_sorted [of 1 1001] by (simp only: strict_sorted_iff)
  then have "sorted_list_of_set (set (map crowded_key [1..<1001])) = map crowded_key [1..<1001]"
    by (intro sorted_list_of_set.idem_if_sorted_distinct) simp_all
  then show ?thesis
    by (simp add: crowded_seen_def sorted_list_of_fset.rep_eq fset_of_list.rep_eq)
qed

lemma fcard_crowded_seen: "fcard crowded_seen = 1000"
proof -
  have "distinct (map crowded_key [1..<1001])"
    using crowded_keys_sorted [of 1 1001] by (simp only: strict_sorted_iff)
  then have "card (set (map crowded_key [1..<1001])) = length (map crowded_key [1..<1001])"
    by (rule distinct_card)
  then show ?thesis
    by (simp add: crowded_seen_def fcard.rep_eq fset_of_list.rep_eq)
qed

lemma fcard_crowded_kept: "fcard crowded_kept = 500"
proof -
  have "distinct (map crowded_key [501..<1001])"
    using crowded_keys_sorted [of 501 1001] by (simp only: strict_sorted_iff)
  then have "card (set (map crowded_key [501..<1001])) = length (map crowded_key [501..<1001])"
    by (rule distinct_card)
  then show ?thesis
    by (simp add: crowded_kept_def fcard.rep_eq fset_of_list.rep_eq)
qed

lemma seven_less_crowded: "x |\<in>| crowded_seen \<Longrightarrow> CHR ''7'' # key < x"
  by (auto simp: crowded_seen_def fset_of_list_elem crowded_key_def)

lemma seven_notin_crowded: "CHR ''7'' # key |\<notin>| crowded_seen"
  using seven_less_crowded [of "CHR ''7'' # key" key] by auto

lemma seven_notin_kept: "CHR ''7'' # key |\<notin>| crowded_kept"
  by (auto simp: crowded_kept_def fset_of_list_elem crowded_key_def)

lemma sorted_insert_seven:
  "sorted_list_of_fset (finsert (CHR ''7'' # key) crowded_seen)
     = (CHR ''7'' # key) # map crowded_key [1..<1001]"
proof -
  have fin: "finite (fset crowded_seen)" by simp
  have notin: "CHR ''7'' # key \<notin> fset crowded_seen" using seven_notin_crowded by simp
  have "sorted_list_of_set (insert (CHR ''7'' # key) (fset crowded_seen))
      = insort (CHR ''7'' # key) (sorted_list_of_set (fset crowded_seen))"
    using fin notin by (simp add: sorted_list_of_set.sorted_key_list_of_set_insert)
  moreover have "insort (CHR ''7'' # key) (sorted_list_of_set (fset crowded_seen))
      = (CHR ''7'' # key) # sorted_list_of_set (fset crowded_seen)"
    by (rule insort_is_Cons) (use seven_less_crowded in \<open>auto simp: less_imp_le\<close>)
  ultimately show ?thesis
    using sorted_crowded_seen by (simp add: sorted_list_of_fset.rep_eq)
qed

lemma drop_500_crowded: "drop 500 (map crowded_key [1..<1001]) = map crowded_key [501..<1001]"
  by (simp add: drop_map)

lemma prune_crowded:
  assumes "set_order rt = sorted_list_of_fset"
  shows "prune_seen rt (finsert (CHR ''7'' # key) crowded_seen) = crowded_kept"
proof -
  have "fcard (finsert (CHR ''7'' # key) crowded_seen) = 1001"
    using seven_notin_crowded fcard_crowded_seen by (simp add: fcard_finsert_disjoint)
  then show ?thesis
    using assms sorted_insert_seven [of key] drop_500_crowded
    by (simp add: prune_seen_def last_n_def crowded_kept_def)
qed

lemma prune_kept:
  "prune_seen rt (finsert k crowded_kept) = finsert k crowded_kept"
proof -
  have "fcard (finsert k crowded_kept) \<le> 501"
    using fcard_crowded_kept by (simp add: fcard_finsert_if)
  then show ?thesis by (simp add: prune_seen_def)
qed
lemma prune_seen_size: "fcard seen > 1000 \<Longrightarrow> fcard (prune_seen rt seen) \<le> 500"
proof -
  have "fcard (fset_of_list (last_n 500 (set_order rt seen)))
      = card (set (last_n 500 (set_order rt seen)))"
    by (simp add: fcard.rep_eq fset_of_list.rep_eq)
  also have "\<dots> \<le> length (last_n 500 (set_order rt seen))" by (rule card_length)
  also have "\<dots> \<le> 500" by (simp add: last_n_def)
  finally show "fcard seen > 1000 \<Longrightarrow> fcard (prune_seen rt seen) \<le> 500"
    by (simp add: prune_seen_def)
qed

lemma prune_seen_small: "fcard seen \<le> 1000 \<Longrightarrow> prune_seen rt seen = seen"
  by (simp add: prune_seen_def)

lemma goal_message_fields:
  "goal_fields (goal_message fid goal score) =
     Inr (PDict [(''id'', PInt fid)], PDict [(''id'', PInt 39)], PDict goal, PDict score,
          PInt fid, PInt 39, True)"
  by (simp add: goal_message_def goal_fields_def seq_def in_supported_leagues_def
      SUPPORTED_LEAGUES_def)

lemma goal_message_type: "dict_get (goal_message fid goal score) ''type'' (PStr []) = Inr (PStr ''goal'')"
  by (simp add: goal_message_def)

text \<open>
  Claim C4, on the code. The listener has seen 1000 goals and admits a new one, by Saka. The
  set then holds 1001 keys and is cut to the last 500 of \<^verbatim>\<open>list(self.seen_goals)\<close>, a
  list in hash order, not in order of insertion; where the new key is listed among the first
  501 (here: first), it is dropped at once. The size after the cut is 500, within the bound
  of the claim, but the key added last is lost.
\<close>

theorem newest_key_lost_by_pruning:
  "handle_goal_event (example_runtime []) crowded_listener saka_goal [] =
     (None, crowded_listener\<lparr>seen_goals := crowded_kept\<rparr>,
      [(''on_goal'', stream_event 7 (PStr ''Saka'') (PInt 12) (PInt 1) (PInt 0), None)])
   \<and> fcard (seen_goals crowded_listener) = 1000
   \<and> goal_key (example_runtime []) (PInt 7) (PDict [(''minute'', PInt 12), (''player'', PStr ''Saka'')])
       = Inr ''7_12_Saka''
   \<and> ''7_12_Saka'' |\<notin>| seen_goals crowded_listener
   \<and> ''7_12_Saka'' |\<notin>| crowded_kept
   \<and> fcard crowded_kept = 500"
proof -
  have k: "goal_key (example_runtime []) (PInt 7) (PDict [(''minute'', PInt 12), (''player'', PStr ''Saka'')])
       = Inr (CHR ''7'' # ''_12_Saka'')"
    by (simp add: goal_key_def seq_def goal_id_def show_int_def show_nat.simps digit_char_def)
  have ev: "make_goal_event (PInt 7) (PInt 39) (PDict [(''id'', PInt 7)]) (PDict [(''id'', PInt 39)])
      (PDict [(''minute'', PInt 12), (''player'', PStr ''Saka'')]) (PDict [(''home'', PInt 1), (''away'', PInt 0)])
      = Inr (stream_event 7 (PStr ''Saka'') (PInt 12) (PInt 1) (PInt 0))"
    by (simp add: make_goal_event_def seq_def stream_event_def)
  have "handle_goal_event (example_runtime []) crowded_listener saka_goal [] =
     (None, crowded_listener\<lparr>seen_goals := crowded_kept\<rparr>,
      [(''on_goal'', stream_event 7 (PStr ''Saka'') (PInt 12) (PInt 1) (PInt 0), None)])"
    using k ev seven_notin_crowded [of "''_12_Saka''"]
      prune_crowded [of "example_runtime []" "''_12_Saka''"]
    by (simp add: handle_goal_event_def handle_goal_event_body_def Let_def saka_goal_def
        goal_message_fields crowded_listener_def listening_def on_goal_def example_runtime_def)
  moreover have "fcard (seen_goals crowded_listener) = 1000"
    using fcard_crowded_seen by (simp add: crowded_listener_def listening_def)
  moreover have "''7_12_Saka'' |\<notin>| seen_goals crowded_listener"
    using seven_notin_crowded [of "''_12_Saka''"] by (simp add: crowded_listener_def listening_def)
  moreover have "''7_12_Saka'' |\<notin>| crowded_kept"
    using seven_notin_kept [of "''_12_Saka''"] by simp
  ultimately show ?thesis using k fcard_crowded_kept by simp
qed

section \<open>Eviction of an old key\<close>

lemma process_admit_on_goal:
  assumes "json_loads rt m = Inr d" and "dict_get d ''type'' (PStr []) = Inr (PStr ''goal'')"
    and "goal_fields d = Inr (fx, lg, g, sc, fid, lid, True)"
    and "goal_key rt fid g = Inr gid"
    and "make_goal_event fid lid fx lg g sc = Inr ev"
    and "gid |\<notin>| seen_goals s"
    and "goal_callbacks s = [on_goal]"
  shows "process_message rt s m calls =
     (None, s\<lparr>seen_goals := prune_seen rt (finsert gid (seen_goals s))\<rparr>,
      calls @ [(''on_goal'', ev, None)])"
proof -
  have "handle_goal_event rt s d calls =
     (None, s\<lparr>seen_goals := prune_seen rt (finsert gid (seen_goals s))\<rparr>,
      calls @ [(''on_goal'', ev, None)])"
    using assms(3-7)
    by (simp add: handle_goal_event_def handle_goal_event_body_def Let_def on_goal_def)
  then show ?thesis using process_message_goal [OF assms(1,2)] by simp
qed

lemma crowded_frame_inj: "crowded_frame i = crowded_frame j \<Longrightarrow> i = j"
proof -
  assume "crowded_frame i = crowded_frame j"
  then have "length (crowded_frame i) = length (crowded_frame j)" by simp
  then show "i = j" by (simp add: crowded_frame_def)
qed

lemma crowded_key_inj: "crowded_key i = crowded_key j \<Longrightarrow> i = j"
proof -
  assume "crowded_key i = crowded_key j"
  then have "length (crowded_key i) = length (crowded_key j)" by simp
  then show "i = j" by (simp add: crowded_key_def)
qed

lemma map_of_crowded:
  "i \<in> set xs \<Longrightarrow> map_of (map crowded_entry xs) (crowded_frame i) = Some (crowded_goal i)"
  by (induction xs) (auto simp: crowded_entry_def dest: crowded_frame_inj)

lemma crowded_goal_key:
  "goal_key rt (PInt 9) (PDict [(''minute'', PInt 0), (''player'', PStr (replicate i (CHR ''z'')))])
     = Inr (crowded_key i)"
  by (simp add: goal_key_def seq_def goal_id_def show_int_def show_nat.simps digit_char_def
      crowded_key_def)

lemma crowded_goal_event:
  "make_goal_event (PInt 9) (PInt 39) (PDict [(''id'', PInt 9)]) (PDict [(''id'', PInt 39)])
      (PDict [(''minute'', PInt 0), (''player'', PStr (replicate i (CHR ''z'')))])
      (PDict [(''home'', PInt 0), (''away'', PInt 0)])
     = Inr (stream_event 9 (PStr (replicate i (CHR ''z''))) (PInt 0) (PInt 0) (PInt 0))"
  by (simp add: make_goal_event_def seq_def stream_event_def)

lemma crowd_step:
  assumes "json_loads rt (crowded_frame i) = Inr (crowded_goal i)"
    and "crowded_key i |\<notin>| seen_goals s"
    and "goal_callbacks s = [on_goal]"
  shows "process_message rt s (crowded_frame i) calls =
     (None, s\<lparr>seen_goals := prune_seen rt (finsert (crowded_key i) (seen_goals s))\<rparr>,
      calls @ [crowded_delivery i])"
  using process_admit_on_goal [OF assms(1) _ _ crowded_goal_key crowded_goal_event assms(2,3),
      of calls]
  by (simp add: crowded_goal_def goal_message_type goal_message_fields crowded_delivery_def)

lemma crowd_run:
  assumes "\<And>i. a \<le> i \<Longrightarrow> i < a + n \<Longrightarrow> json_loads rt (crowded_frame i) = Inr (crowded_goal i)"
    and "running s" and "goal_callbacks s = [on_goal]"
    and "\<And>i. a \<le> i \<Longrightarrow> i < a + n \<Longrightarrow> crowded_key i |\<notin>| seen_goals s"
    and "fcard (seen_goals s) + n \<le> 1000"
  shows "listen rt s (map crowded_frame [a..<a + n] @ rest) ending calls =
     listen rt (s\<lparr>seen_goals := seen_goals s |\<union>| fset_of_list (map crowded_key [a..<a + n])\<rparr>)
       rest ending (calls @ map crowded_delivery [a..<a + n])"
  using assms
proof (induction n arbitrary: a s calls)
  case 0
  then show ?case by simp
next
  case (Suc n)
  let ?s1 = "s\<lparr>seen_goals := finsert (crowded_key a) (seen_goals s)\<rparr>"
  have up: "[a..<a + Suc n] = a # [Suc a..<Suc a + n]" by (simp add: upt_conv_Cons)
  have notin: "crowded_key a |\<notin>| seen_goals s" using Suc.prems(4) [of a] by simp
  have small: "fcard (finsert (crowded_key a) (seen_goals s)) \<le> 1000"
    using Suc.prems(5) notin by (simp add: fcard_finsert_disjoint)
  have step: "process_message rt s (crowded_frame a) calls = (None, ?s1, calls @ [crowded_delivery a])"
    using crowd_step [OF Suc.prems(1) [of a] notin Suc.prems(3), of calls]
      prune_seen_small [OF small, of rt] by simp
  have ih: "listen rt ?s1 (map crowded_frame [Suc a..<Suc a + n] @ rest) ending
        (calls @ [crowded_delivery a]) =
     listen rt (?s1\<lparr>seen_goals := seen_goals ?s1 |\<union>| fset_of_list (map crowded_key [Suc a..<Suc a + n])\<rparr>)
       rest ending ((calls @ [crowded_delivery a]) @ map crowded_delivery [Suc a..<Suc a + n])"
  proof (rule Suc.IH)
    fix i assume "Suc a \<le> i" "i < Suc a + n"
    then show "json_loads rt (crowded_frame i) = Inr (crowded_goal i)"
      using Suc.prems(1) [of i] by simp
  next
    show "running ?s1" using Suc.prems(2) by simp
  next
    show "goal_callbacks ?s1 = [on_goal]" using Suc.prems(3) by simp
  next
    fix i assume i: "Suc a \<le> i" "i < Suc a + n"
    then have "crowded_key i |\<notin>| seen_goals s" using Suc.prems(4) [of i] by simp
    moreover have "crowded_key i \<noteq> crowded_key a" using i crowded_key_inj [of i a] by auto
    ultimately show "crowded_key i |\<notin>| seen_goals ?s1" by simp
  next
    show "fcard (seen_goals ?s1) + n \<le> 1000"
      using Suc.prems(5) notin by (simp add: fcard_finsert_disjoint)
  qed
  have seen: "finsert (crowded_key a) (seen_goals s) |\<union>| fset_of_list (map crowded_key [Suc a..<Suc a + n])
      = seen_goals s |\<union>| fset_of_list (map crowded_key [a..<a + Suc n])"
    by (simp only: up) auto
  have "listen rt s (map crowded_frame [a..<a + Suc n] @ rest) ending calls =
      listen rt s (crowded_frame a # (map crowded_frame [Suc a..<Suc a + n] @ rest)) ending calls"
    by (simp only: up list.map append_Cons)
  also have "\<dots> = listen rt ?s1 (map crowded_frame [Suc a..<Suc a + n] @ rest) ending
        (calls @ [crowded_delivery a])"
    using Suc.prems(2) step by (simp del: upt_Suc)
  also note ih
  also have "?s1\<lparr>seen_goals := seen_goals ?s1 |\<union>| fset_of_list (map crowded_key [Suc a..<Suc a + n])\<rparr>
      = s\<lparr>seen_goals := seen_goals s |\<union>| fset_of_list (map crowded_key [a..<a + Suc n])\<rparr>"
    using seen by (simp del: upt_Suc)
  also have "(calls @ [crowded_delivery a]) @ map crowded_delivery [Suc a..<Suc a + n]
      = calls @ map crowded_delivery [a..<a + Suc n]"
    by (simp only: up list.map append_Cons append_Nil append_assoc)
  finally show ?case .
qed

lemma evicted_after_crowd:
  assumes "json_loads rt m1 = Inr d1" and "dict_get d1 ''type'' (PStr []) = Inr (PStr ''goal'')"
    and "goal_fields d1 = Inr (fx1, lg1, g1, sc1, fid1, lid1, True)"
    and "goal_key rt fid1 g1 = Inr (CHR ''7'' # key)"
    and "make_goal_event fid1 lid1 fx1 lg1 g1 sc1 = Inr ev1"
    and "json_loads rt m2 = Inr d2" and "dict_get d2 ''type'' (PStr []) = Inr (PStr ''goal'')"
    and "goal_fields d2 = Inr (fx2, lg2, g2, sc2, fid2, lid2, True)"
    and "goal_key rt fid2 g2 = Inr (CHR ''7'' # key)"
    and "make_goal_event fid2 lid2 fx2 lg2 g2 sc2 = Inr ev2"
    and "\<And>i. 1 \<le> i \<Longrightarrow> i < 1001 \<Longrightarrow> json_loads rt (crowded_frame i) = Inr (crowded_goal i)"
    and "set_order rt = sorted_list_of_fset"
  shows "listen rt listening (m1 # map crowded_frame [1..<1001] @ [m2]) None [] =
     (None, listening\<lparr>seen_goals := finsert (CHR ''7'' # key) crowded_kept\<rparr>,
      (''on_goal'', ev1, None) # map crowded_delivery [1..<1001] @ [(''on_goal'', ev2, None)])"
proof -
  let ?k = "CHR ''7'' # key"
  let ?d1 = "(''on_goal'', ev1, None) :: delivery"
  let ?d2 = "(''on_goal'', ev2, None) :: delivery"
  let ?s1 = "listening\<lparr>seen_goals := {|?k|}\<rparr>"
  let ?s2 = "listening\<lparr>seen_goals := {|?k|} |\<union>| fset_of_list (map crowded_key [1..<1000])\<rparr>"
  let ?s3 = "listening\<lparr>seen_goals := crowded_kept\<rparr>"
  let ?s4 = "listening\<lparr>seen_goals := finsert ?k crowded_kept\<rparr>"
  have run: "running listening" and cb: "goal_callbacks listening = [on_goal]"
    and empty: "seen_goals listening = {||}"
    by (simp_all add: listening_def init_ws_def)
  have p0: "prune_seen rt {|?k|} = {|?k|}"
    by (rule prune_seen_small) (simp add: fcard_finsert_if fcard_fempty)
  have first: "process_message rt listening m1 [] = (None, ?s1, [?d1])"
    using process_admit_on_goal [OF assms(1-5) _ cb, of "[]"] empty p0 by simp
  have notin: "\<And>i. crowded_key i |\<notin>| {|?k|}" by (simp add: crowded_key_def)
  have "listen rt ?s1 (map crowded_frame [1..<1 + 999] @ [crowded_frame 1000, m2]) None [?d1] =
     listen rt (?s1\<lparr>seen_goals := seen_goals ?s1 |\<union>| fset_of_list (map crowded_key [1..<1 + 999])\<rparr>)
       [crowded_frame 1000, m2] None ([?d1] @ map crowded_delivery [1..<1 + 999])"
  proof (rule crowd_run)
    fix i :: nat assume "1 \<le> i" "i < 1 + 999"
    then show "json_loads rt (crowded_frame i) = Inr (crowded_goal i)" using assms(11) [of i] by simp
  next
    show "running ?s1" using run by simp
  next
    show "goal_callbacks ?s1 = [on_goal]" using cb by simp
  next
    fix i :: nat show "crowded_key i |\<notin>| seen_goals ?s1" using notin by simp
  next
    show "fcard (seen_goals ?s1) + 999 \<le> 1000" by (simp add: fcard_finsert_if fcard_fempty)
  qed
  then have crowd: "listen rt ?s1 (map crowded_frame [1..<1000] @ [crowded_frame 1000, m2]) None [?d1] =
     listen rt ?s2 [crowded_frame 1000, m2] None (?d1 # map crowded_delivery [1..<1000])"
    by (simp del: upt_Suc)
  have up: "[1..<1001] = [1..<1000] @ [1000::nat]"
    using upt_Suc_append [of 1 1000] by simp
  have full: "finsert (crowded_key 1000) ({|?k|} |\<union>| fset_of_list (map crowded_key [1..<1000]))
      = finsert ?k crowded_seen"
    by (simp only: crowded_seen_def up) auto
  have k1000: "crowded_key 1000 |\<notin>| {|?k|} |\<union>| fset_of_list (map crowded_key [1..<1000])"
    using notin [of 1000] crowded_key_inj [of 1000] by (auto simp: fset_of_list_elem)
  have cb2: "goal_callbacks ?s2 = [on_goal]" using cb by simp
  have last_crowd: "process_message rt ?s2 (crowded_frame 1000) (?d1 # map crowded_delivery [1..<1000]) =
      (None, ?s3, (?d1 # map crowded_delivery [1..<1000]) @ [crowded_delivery 1000])"
  proof -
    have "process_message rt ?s2 (crowded_frame 1000) (?d1 # map crowded_delivery [1..<1000]) =
      (None, ?s2\<lparr>seen_goals := prune_seen rt (finsert (crowded_key 1000) (seen_goals ?s2))\<rparr>,
       (?d1 # map crowded_delivery [1..<1000]) @ [crowded_delivery 1000])"
    proof (rule crowd_step)
      show "json_loads rt (crowded_frame 1000) = Inr (crowded_goal 1000)"
        using assms(11) [of 1000] by simp
    next
      show "crowded_key 1000 |\<notin>| seen_goals ?s2" using k1000 by (simp del: upt_Suc)
    next
      show "goal_callbacks ?s2 = [on_goal]" by (rule cb2)
    qed
    moreover have "prune_seen rt (finsert (crowded_key 1000) (seen_goals ?s2)) = crowded_kept"
      using full prune_crowded [OF assms(12), of key] by (simp del: upt_Suc)
    ultimately show ?thesis by (simp del: upt_Suc)
  qed
  have cb3: "goal_callbacks ?s3 = [on_goal]" using cb by simp
  have second: "process_message rt ?s3 m2 ((?d1 # map crowded_delivery [1..<1000]) @ [crowded_delivery 1000]) =
      (None, ?s4, ((?d1 # map crowded_delivery [1..<1000]) @ [crowded_delivery 1000]) @ [?d2])"
  proof -
    have "process_message rt ?s3 m2 ((?d1 # map crowded_delivery [1..<1000]) @ [crowded_delivery 1000]) =
      (None, ?s3\<lparr>seen_goals := prune_seen rt (finsert ?k (seen_goals ?s3))\<rparr>,
       ((?d1 # map crowded_delivery [1..<1000]) @ [crowded_delivery 1000]) @ [?d2])"
    proof (rule process_admit_on_goal [OF assms(6-10)])
      show "?k |\<notin>| seen_goals ?s3" using seven_notin_kept [of key] by simp
    next
      show "goal_callbacks ?s3 = [on_goal]" by (rule cb3)
    qed
    then show ?thesis using prune_kept [of rt ?k] by simp
  qed
  have frames: "m1 # map crowded_frame [1..<1001] @ [m2]
      = m1 # map crowded_frame [1..<1000] @ [crowded_frame 1000, m2]"
    by (simp only: up map_append list.map append_assoc append_Cons append_Nil)
  have "listen rt listening (m1 # map crowded_frame [1..<1000] @ [crowded_frame 1000, m2]) None [] =
      listen rt ?s1 (map crowded_frame [1..<1000] @ [crowded_frame 1000, m2]) None [?d1]"
    using run first by (simp del: upt_Suc)
  also note crowd
  also have "listen rt ?s2 [crowded_frame 1000, m2] None (?d1 # map crowded_delivery [1..<1000]) =
      listen rt ?s3 [m2] None ((?d1 # map crowded_delivery [1..<1000]) @ [crowded_delivery 1000])"
    using run last_crowd by (simp del: upt_Suc)
  also have "\<dots> = (None, ?s4, ((?d1 # map crowded_delivery [1..<1000]) @ [crowded_delivery 1000]) @ [?d2])"
    using run second by (simp del: upt_Suc)
  also have "((?d1 # map crowded_delivery [1..<1000]) @ [crowded_delivery 1000]) @ [?d2]
      = ?d1 # map crowded_delivery [1..<1001] @ [?d2]"
    by (simp only: up map_append list.map append_assoc append_Cons append_Nil)
  finally show ?thesis by (simp only: frames)
qed

section \<open>Deduplication\<close>

lemma handle_goal_event_records_key:
  assumes "goal_fields d = Inr (fx, lg, g, sc, fid, lid, True)"
    and "goal_key rt fid g = Inr gid"
    and "fcard (seen_goals s) < 1000"
    and "handle_goal_event rt s d calls = (out, s', calls')"
  shows "gid |\<in>| seen_goals s'"
proof (cases "gid |\<in>| seen_goals s")
  case True
  with assms handle_goal_event_duplicate [OF assms(1,2) True, of calls] show ?thesis by simp
next
  case False
  have "fcard (finsert gid (seen_goals s)) \<le> 1000"
    using assms(3) False by (simp add: fcard_finsert_disjoint)
  then have p: "prune_seen rt (finsert gid (seen_goals s)) = finsert gid (seen_goals s)"
    by (rule prune_seen_small)
  from assms(1,2,4) False p show ?thesis
    by (auto simp: handle_goal_event_def handle_goal_event_body_def Let_def
        split: sum.splits)
qed

lemma handle_goal_event_seen:
  assumes "handle_goal_event rt s data calls = (out, s', calls')"
  shows "seen_goals s' = seen_goals s
     \<or> (\<exists>k. k |\<notin>| seen_goals s \<and> seen_goals s' = prune_seen rt (finsert k (seen_goals s)))"
proof (cases "goal_fields data")
  case (Inl e)
  with assms show ?thesis
    by (auto simp: handle_goal_event_def handle_goal_event_body_def)
next
  case (Inr t)
  obtain fixture league goal score fid lid supported
    where t: "t = (fixture, league, goal, score, fid, lid, supported)"
    by (cases t) auto
  show ?thesis
  proof (cases "supported \<and> (\<exists>gid. goal_key rt fid goal = Inr gid \<and> gid |\<notin>| seen_goals s)")
    case True
    then obtain gid where g: "goal_key rt fid goal = Inr gid" "gid |\<notin>| seen_goals s"
      and sup: "supported" by blast
    from assms Inr t sup g
    have "s' = s\<lparr>seen_goals := prune_seen rt (finsert gid (seen_goals s))\<rparr>"
      by (auto simp: handle_goal_event_def handle_goal_event_body_def Let_def split: sum.splits)
    with g(2) show ?thesis by auto
  next
    case False
    with assms Inr t have "s' = s"
      by (auto simp: handle_goal_event_def handle_goal_event_body_def Let_def
          split: sum.splits if_splits)
    then show ?thesis by simp
  qed
qed

lemma process_message_seen:
  assumes "process_message rt s m calls = (out, s', calls')"
  shows "seen_goals s' = seen_goals s
     \<or> (\<exists>k. k |\<notin>| seen_goals s \<and> seen_goals s' = prune_seen rt (finsert k (seen_goals s)))"
proof (cases "\<exists>d. json_loads rt m = Inr d \<and> dict_get d ''type'' (PStr []) = Inr (PStr ''goal'')")
  case True
  then obtain d where "json_loads rt m = Inr d" "dict_get d ''type'' (PStr []) = Inr (PStr ''goal'')"
    by blast
  with assms process_message_goal [of rt m d s calls] handle_goal_event_seen show ?thesis
    by metis
next
  case False
  with assms have "seen_goals s' = seen_goals s"
    by (auto simp: process_message_def handle_fixture_update_def seq_def
        split: sum.splits if_splits)
  then show ?thesis by simp
qed

lemma process_message_keeps_key:
  assumes "gid |\<in>| seen_goals s" and "fcard (seen_goals s) < 1000"
    and "process_message rt s m calls = (out, s', calls')"
  shows "gid |\<in>| seen_goals s' \<and> fcard (seen_goals s') \<le> fcard (seen_goals s) + 1"
proof -
  from process_message_seen [OF assms(3)]
  consider "seen_goals s' = seen_goals s"
    | k where "k |\<notin>| seen_goals s" "seen_goals s' = prune_seen rt (finsert k (seen_goals s))"
    by blast
  then show ?thesis
  proof cases
    case 1
    with assms(1) show ?thesis by simp
  next
    case 2
    have "fcard (finsert k (seen_goals s)) = fcard (seen_goals s) + 1"
      using 2(1) by (simp add: fcard_finsert_disjoint)
    with assms(2) 2(2) have "seen_goals s' = finsert k (seen_goals s)"
      by (simp add: prune_seen_small)
    with assms(1) 2(1) show ?thesis by (simp add: fcard_finsert_disjoint)
  qed
qed

lemma listen_keeps_key:
  assumes "gid |\<in>| seen_goals s" and "fcard (seen_goals s) + length ms \<le> 1000"
    and "listen rt s ms ending calls = (out, s', calls')"
  shows "gid |\<in>| seen_goals s'"
  using assms
proof (induction ms arbitrary: s calls)
  case Nil
  then show ?case by simp
next
  case (Cons m ms)
  show ?case
  proof (cases "running s")
    case False
    with Cons.prems show ?thesis by simp
  next
    case True
    obtain o1 s1 calls1 where pm: "process_message rt s m calls = (o1, s1, calls1)"
      by (cases "process_message rt s m calls") auto
    have lt: "fcard (seen_goals s) < 1000" using Cons.prems(2) by simp
    from process_message_keeps_key [OF Cons.prems(1) lt pm]
    have k1: "gid |\<in>| seen_goals s1" and c1: "fcard (seen_goals s1) \<le> fcard (seen_goals s) + 1"
      by simp_all
    show ?thesis
    proof (cases o1)
      case None
      with Cons.prems(3) True pm have "listen rt s1 ms ending calls1 = (out, s', calls')" by simp
      moreover have "fcard (seen_goals s1) + length ms \<le> 1000" using c1 Cons.prems(2) by simp
      ultimately show ?thesis using Cons.IH [OF k1] by blast
    next
      case (Some e)
      with Cons.prems(3) True pm have "s' = s1" by simp
      with k1 show ?thesis by simp
    qed
  qed
qed

lemma handle_goal_event_grows:
  assumes "fcard (seen_goals s) < 1000"
    and "handle_goal_event rt s d calls = (out, s', calls')"
  shows "fcard (seen_goals s') \<le> fcard (seen_goals s) + 1"
proof -
  from handle_goal_event_seen [OF assms(2)]
  consider "seen_goals s' = seen_goals s"
    | k where "k |\<notin>| seen_goals s" "seen_goals s' = prune_seen rt (finsert k (seen_goals s))"
    by blast
  then show ?thesis
  proof cases
    case 1
    then show ?thesis by simp
  next
    case 2
    have "fcard (finsert k (seen_goals s)) = fcard (seen_goals s) + 1"
      using 2(1) by (simp add: fcard_finsert_disjoint)
    with assms(1) 2(2) show ?thesis by (simp add: prune_seen_small)
  qed
qed

text \<open>
  Claim C3, as amended. A goal message of a supported league, from which the event can be
  built, whose key is not in the dedup set is admitted: the key goes into the set and every
  callback is called with the event, in order. A goal message whose key is in the set is
  rejected: no callback is called and nothing changes. So of two messages with the same key
  the second is rejected for as long as the key stays in the set, and it stays there, across
  any frames in between, at least while the set remains within its mark of 1000 keys, where
  nothing is pruned.
\<close>

theorem dedup_admits_new_key_rejects_retained_key:
  assumes "json_loads rt m1 = Inr d1"
    and "dict_get d1 ''type'' (PStr []) = Inr (PStr ''goal'')"
    and "goal_fields d1 = Inr (fx1, lg1, g1, sc1, fid1, lid1, True)"
    and "goal_key rt fid1 g1 = Inr gid"
    and "make_goal_event fid1 lid1 fx1 lg1 g1 sc1 = Inr ev1"
    and "gid |\<notin>| seen_goals s"
    and "json_loads rt m2 = Inr d2"
    and "dict_get d2 ''type'' (PStr []) = Inr (PStr ''goal'')"
    and "goal_fields d2 = Inr (fx2, lg2, g2, sc2, fid2, lid2, sup2)"
    and "goal_key rt fid2 g2 = Inr gid"
  shows "\<exists>new.
       process_message rt s m1 calls =
         (None, s\<lparr>seen_goals := prune_seen rt (finsert gid (seen_goals s))\<rparr>, calls @ new)
     \<and> map (\<lambda>d. (fst d, fst (snd d))) new = map (\<lambda>cb. (cb_name cb, ev1)) (goal_callbacks s)
     \<and> (\<forall>s2 calls2. gid |\<in>| seen_goals s2 \<longrightarrow>
            process_message rt s2 m2 calls2 = (None, s2, calls2))
     \<and> (fcard (seen_goals s) + length between < 1000 \<longrightarrow>
          gid |\<in>| prune_seen rt (finsert gid (seen_goals s))
          \<and> (\<forall>out s2 calls2.
                listen rt (s\<lparr>seen_goals := prune_seen rt (finsert gid (seen_goals s))\<rparr>)
                  between ending (calls @ new) = (out, s2, calls2)
                \<longrightarrow> gid |\<in>| seen_goals s2
                  \<and> process_message rt s2 m2 calls2 = (None, s2, calls2)))"
proof -
  let ?s1 = "s\<lparr>seen_goals := prune_seen rt (finsert gid (seen_goals s))\<rparr>"
  from handle_goal_event_admitted [OF assms(3,4,6,5), of calls]
  obtain new where h: "handle_goal_event rt s d1 calls = (None, ?s1, calls @ new)"
    and m: "map (\<lambda>d. (fst d, fst (snd d))) new = map (\<lambda>cb. (cb_name cb, ev1)) (goal_callbacks s)"
    by blast
  have p1: "process_message rt s m1 calls = (None, ?s1, calls @ new)"
    using process_message_goal [OF assms(1,2)] h by simp
  have rej: "\<forall>s2 calls2. gid |\<in>| seen_goals s2 \<longrightarrow>
            process_message rt s2 m2 calls2 = (None, s2, calls2)"
    using process_message_goal [OF assms(7,8)] handle_goal_event_duplicate [OF assms(9,10)]
    by simp
  have later: "fcard (seen_goals s) + length between < 1000 \<longrightarrow>
          gid |\<in>| prune_seen rt (finsert gid (seen_goals s))
          \<and> (\<forall>out s2 calls2.
                listen rt ?s1 between ending (calls @ new) = (out, s2, calls2)
                \<longrightarrow> gid |\<in>| seen_goals s2
                  \<and> process_message rt s2 m2 calls2 = (None, s2, calls2))"
  proof
    assume small: "fcard (seen_goals s) + length between < 1000"
    have c: "fcard (finsert gid (seen_goals s)) = fcard (seen_goals s) + 1"
      using assms(6) by (simp add: fcard_finsert_disjoint)
    with small have p: "prune_seen rt (finsert gid (seen_goals s)) = finsert gid (seen_goals s)"
      by (simp add: prune_seen_small)
    then have k1: "gid |\<in>| seen_goals ?s1" by simp
    have b: "fcard (seen_goals ?s1) + length between \<le> 1000" using p c small by simp
    have "\<forall>out s2 calls2.
                listen rt ?s1 between ending (calls @ new) = (out, s2, calls2)
                \<longrightarrow> gid |\<in>| seen_goals s2
                  \<and> process_message rt s2 m2 calls2 = (None, s2, calls2)"
      using listen_keeps_key [OF k1 b] rej by blast
    with p show "gid |\<in>| prune_seen rt (finsert gid (seen_goals s))
          \<and> (\<forall>out s2 calls2.
                listen rt ?s1 between ending (calls @ new) = (out, s2, calls2)
                \<longrightarrow> gid |\<in>| seen_goals s2
                  \<and> process_message rt s2 m2 calls2 = (None, s2, calls2))"
      by simp
  qed
  from p1 m rej later show ?thesis by blast
qed

text \<open>
  Kane's goal, then Rice's, then the frame of Kane's goal again, on a fresh listener: two
  calls of the callback, none for the repeated frame.
\<close>

theorem dedup_admits_new_key_rejects_retained_key_witness:
  "json_loads (example_runtime [(kane_frame, kane_goal), (minute_50_frame, minute_50_goal)]) kane_frame
      = Inr kane_goal
   \<and> dict_get kane_goal ''type'' (PStr []) = Inr (PStr ''goal'')
   \<and> goal_fields kane_goal = Inr (PDict [(''id'', PInt 7)], PDict [(''id'', PInt 39)],
        PDict [(''minute'', PInt 30), (''player'', PStr ''Kane'')],
        PDict [(''home'', PInt 1), (''away'', PInt 0)], PInt 7, PInt 39, True)
   \<and> goal_key (example_runtime [(kane_frame, kane_goal), (minute_50_frame, minute_50_goal)]) (PInt 7)
        (PDict [(''minute'', PInt 30), (''player'', PStr ''Kane'')]) = Inr ''7_30_Kane''
   \<and> make_goal_event (PInt 7) (PInt 39) (PDict [(''id'', PInt 7)]) (PDict [(''id'', PInt 39)])
        (PDict [(''minute'', PInt 30), (''player'', PStr ''Kane'')])
        (PDict [(''home'', PInt 1), (''away'', PInt 0)])
      = Inr (stream_event 7 (PStr ''Kane'') (PInt 30) (PInt 1) (PInt 0))
   \<and> ''7_30_Kane'' |\<notin>| seen_goals listening
   \<and> fcard (seen_goals listening) + length [minute_50_frame] < 1000
   \<and> listen (example_runtime [(kane_frame, kane_goal), (minute_50_frame, minute_50_goal)])
        listening [kane_frame, minute_50_frame, kane_frame] None []
      = (None, listening\<lparr>seen_goals := {|''7_50_Rice'', ''7_30_Kane''|}\<rparr>,
         [(''on_goal'', stream_event 7 (PStr ''Kane'') (PInt 30) (PInt 1) (PInt 0), None),
          (''on_goal'', stream_event 7 (PStr ''Rice'') (PInt 50) (PInt 1) (PInt 0), None)])"
  using dedup_admits_new_key_rejects_retained_key
    [of "example_runtime [(kane_frame, kane_goal), (minute_50_frame, minute_50_goal)]"
      kane_frame kane_goal "PDict [(''id'', PInt 7)]" "PDict [(''id'', PInt 39)]"
      "PDict [(''minute'', PInt 30), (''player'', PStr ''Kane'')]"
      "PDict [(''home'', PInt 1), (''away'', PInt 0)]" "PInt 7" "PInt 39" "''7_30_Kane''"
      "stream_event 7 (PStr ''Kane'') (PInt 30) (PInt 1) (PInt 0)" listening
      kane_frame kane_goal "PDict [(''id'', PInt 7)]" "PDict [(''id'', PInt 39)]"
      "PDict [(''minute'', PInt 30), (''player'', PStr ''Kane'')]"
      "PDict [(''home'', PInt 1), (''away'', PInt 0)]" "PInt 7" "PInt 39" True
      "[]" "[minute_50_frame]" None]
  by (simp add: example_runtime_def kane_goal_def minute_50_goal_def goal_message_def
     listening_def process_message_def handle_goal_event_def handle_goal_event_body_def
     goal_fields_def goal_key_def goal_id_def seq_def in_supported_leagues_def SUPPORTED_LEAGUES_def
     prune_seen_def make_goal_event_def init_ws_def on_goal_def show_int_def show_nat.simps digit_char_def
     fcard_finsert_if fcard_fempty stream_event_def kane_frame_def minute_50_frame_def)

text \<open>
  Claim C3 as stated fails, since the dedup set is bounded. A fresh listener gets the frame
  of Kane's goal, then the frames of 1000 other goals, then the frame of Kane's goal again.
  With the last of the 1000 the set passes its mark and is cut to 500 keys; here the set is
  listed in the order in which the keys came, so the 500 newest are kept and Kane's key, the
  oldest, goes. The second frame of Kane's goal, with the identical key, is then admitted:
  the callback is called for it a second time.
\<close>

theorem dedup_counterexample:
  "listen (example_runtime ((kane_frame, kane_goal) # map crowded_entry [1..<1001])) listening
      (kane_frame # map crowded_frame [1..<1001] @ [kane_frame]) None []
     = (None, listening\<lparr>seen_goals := finsert ''7_30_Kane'' crowded_kept\<rparr>,
        (''on_goal'', stream_event 7 (PStr ''Kane'') (PInt 30) (PInt 1) (PInt 0), None)
        # map crowded_delivery [1..<1001]
        @ [(''on_goal'', stream_event 7 (PStr ''Kane'') (PInt 30) (PInt 1) (PInt 0), None)])"
proof -
  let ?rt = "example_runtime ((kane_frame, kane_goal) # map crowded_entry [1..<1001])"
  have l: "json_loads ?rt kane_frame = Inr kane_goal" by (simp add: example_runtime_def)
  have t: "dict_get kane_goal ''type'' (PStr []) = Inr (PStr ''goal'')"
    by (simp add: kane_goal_def goal_message_type)
  have f: "goal_fields kane_goal = Inr (PDict [(''id'', PInt 7)], PDict [(''id'', PInt 39)],
        PDict [(''minute'', PInt 30), (''player'', PStr ''Kane'')],
        PDict [(''home'', PInt 1), (''away'', PInt 0)], PInt 7, PInt 39, True)"
    by (simp add: kane_goal_def goal_message_fields)
  have k: "goal_key ?rt (PInt 7) (PDict [(''minute'', PInt 30), (''player'', PStr ''Kane'')])
      = Inr (CHR ''7'' # ''_30_Kane'')"
    by (simp add: goal_key_def seq_def goal_id_def show_int_def show_nat.simps digit_char_def)
  have ev: "make_goal_event (PInt 7) (PInt 39) (PDict [(''id'', PInt 7)]) (PDict [(''id'', PInt 39)])
        (PDict [(''minute'', PInt 30), (''player'', PStr ''Kane'')])
        (PDict [(''home'', PInt 1), (''away'', PInt 0)])
      = Inr (stream_event 7 (PStr ''Kane'') (PInt 30) (PInt 1) (PInt 0))"
    by (simp add: make_goal_event_def seq_def stream_event_def)
  have o: "set_order ?rt = sorted_list_of_fset" by (simp add: example_runtime_def)
  have c: "\<And>i. 1 \<le> i \<Longrightarrow> i < 1001 \<Longrightarrow> json_loads ?rt (crowded_frame i) = Inr (crowded_goal i)"
  proof -
    fix i :: nat assume "1 \<le> i" "i < 1001"
    then have "i \<in> set [1..<1001]" by simp
    then have "map_of (map crowded_entry [1..<1001]) (crowded_frame i) = Some (crowded_goal i)"
      by (rule map_of_crowded)
    moreover have "crowded_frame i \<noteq> kane_frame"
      by (simp add: crowded_frame_def kane_frame_def)
    ultimately show "json_loads ?rt (crowded_frame i) = Inr (crowded_goal i)"
      by (simp add: example_runtime_def del: upt_Suc)
  qed
  show ?thesis
    using evicted_after_crowd [OF l t f k ev l t f k ev c o] by simp
qed

section \<open>Goals that share a key\<close>

lemma goal_key_dict:
  "goal_key rt fid (PDict g) =
     Inr (goal_id rt fid (case map_of g ''minute'' of None \<Rightarrow> PInt 0 | Some v \<Rightarrow> v)
            (case map_of g ''player'' of None \<Rightarrow> PStr ''unknown'' | Some v \<Rightarrow> v))"
  by (simp add: goal_key_def seq_def)

text \<open>
  Claim C10, as amended. Two goal messages with the same fixture id that have the same
  minute entry and the same player entry (both without a player, for one) have the same
  key, made with 0 for a missing minute and \<^verbatim>\<open>unknown\<close> for a missing player. The second
  is dropped, with no call of a callback and no change, for as long as that key stays in the
  dedup set; and once the first message (of a supported league) was handled the key stays
  there, across any frames in between, at least while the set remains within its mark of
  1000 keys, where nothing is pruned. Whether the second message describes another goal
  plays no part.
\<close>

theorem same_key_goal_suppressed_while_retained:
  assumes "goal_fields d1 = Inr (fx1, lg1, PDict g1, sc1, fid, lid1, True)"
    and "goal_fields d2 = Inr (fx2, lg2, PDict g2, sc2, fid, lid2, sup2)"
    and "map_of g1 ''minute'' = map_of g2 ''minute''"
    and "map_of g1 ''player'' = map_of g2 ''player''"
  shows "\<exists>gid.
       goal_key rt fid (PDict g1) = Inr gid \<and> goal_key rt fid (PDict g2) = Inr gid
     \<and> gid = goal_id rt fid (case map_of g1 ''minute'' of None \<Rightarrow> PInt 0 | Some v \<Rightarrow> v)
                (case map_of g1 ''player'' of None \<Rightarrow> PStr ''unknown'' | Some v \<Rightarrow> v)
     \<and> (\<forall>s2 calls2. gid |\<in>| seen_goals s2 \<longrightarrow>
            handle_goal_event rt s2 d2 calls2 = (None, s2, calls2))
     \<and> (fcard (seen_goals s) + length between < 1000 \<longrightarrow>
          (\<forall>out s1 calls1 out2 s2 calls2.
              handle_goal_event rt s d1 calls = (out, s1, calls1)
            \<and> listen rt s1 between ending calls1 = (out2, s2, calls2) \<longrightarrow>
              gid |\<in>| seen_goals s1 \<and> gid |\<in>| seen_goals s2
            \<and> handle_goal_event rt s2 d2 calls2 = (None, s2, calls2)))"
proof -
  let ?gid = "goal_id rt fid (case map_of g1 ''minute'' of None \<Rightarrow> PInt 0 | Some v \<Rightarrow> v)
                (case map_of g1 ''player'' of None \<Rightarrow> PStr ''unknown'' | Some v \<Rightarrow> v)"
  have k1: "goal_key rt fid (PDict g1) = Inr ?gid" by (rule goal_key_dict)
  have k2: "goal_key rt fid (PDict g2) = Inr ?gid" using assms(3,4) by (simp add: goal_key_dict)
  have rej: "\<forall>s2 calls2. ?gid |\<in>| seen_goals s2 \<longrightarrow>
            handle_goal_event rt s2 d2 calls2 = (None, s2, calls2)"
    using handle_goal_event_duplicate [OF assms(2) k2] by blast
  have "fcard (seen_goals s) + length between < 1000 \<longrightarrow>
          (\<forall>out s1 calls1 out2 s2 calls2.
              handle_goal_event rt s d1 calls = (out, s1, calls1)
            \<and> listen rt s1 between ending calls1 = (out2, s2, calls2) \<longrightarrow>
              ?gid |\<in>| seen_goals s1 \<and> ?gid |\<in>| seen_goals s2
            \<and> handle_goal_event rt s2 d2 calls2 = (None, s2, calls2))"
  proof (intro impI allI)
    fix out s1 calls1 out2 s2 calls2
    assume small: "fcard (seen_goals s) + length between < 1000"
      and run: "handle_goal_event rt s d1 calls = (out, s1, calls1)
            \<and> listen rt s1 between ending calls1 = (out2, s2, calls2)"
    have lt: "fcard (seen_goals s) < 1000" using small by simp
    have in1: "?gid |\<in>| seen_goals s1"
      using handle_goal_event_records_key [OF assms(1) k1 lt] run by blast
    have "fcard (seen_goals s1) \<le> fcard (seen_goals s) + 1"
      using handle_goal_event_grows [OF lt] run by blast
    with small have "fcard (seen_goals s1) + length between \<le> 1000" by simp
    from listen_keeps_key [OF in1 this] run have in2: "?gid |\<in>| seen_goals s2" by blast
    with in1 rej
    show "?gid |\<in>| seen_goals s1 \<and> ?gid |\<in>| seen_goals s2
            \<and> handle_goal_event rt s2 d2 calls2 = (None, s2, calls2)"
      by blast
  qed
  with k1 k2 rej show ?thesis by blast
qed

text \<open>
  On a fresh listener the goal to 1-0 in minute 45 is delivered, and the goal to 2-0 in the
  same minute, which names no player either, is dropped.
\<close>

theorem same_key_goal_suppressed_while_retained_witness:
  "goal_fields first_45_goal = Inr (PDict [(''id'', PInt 7)], PDict [(''id'', PInt 39)],
        PDict [(''minute'', PInt 45)], PDict [(''home'', PInt 1), (''away'', PInt 0)],
        PInt 7, PInt 39, True)
   \<and> goal_fields second_45_goal = Inr (PDict [(''id'', PInt 7)], PDict [(''id'', PInt 39)],
        PDict [(''minute'', PInt 45)], PDict [(''home'', PInt 2), (''away'', PInt 0)],
        PInt 7, PInt 39, True)
   \<and> map_of [(''minute'', PInt 45)] ''minute'' = map_of [(''minute'', PInt 45)] ''minute''
   \<and> map_of [(''minute'', PInt 45)] ''player'' = map_of [(''minute'', PInt 45)] ''player''
   \<and> fcard (seen_goals listening) + length ([] :: string list) < 1000
   \<and> goal_key (example_runtime []) (PInt 7) (PDict [(''minute'', PInt 45)]) = Inr ''7_45_unknown''
   \<and> handle_goal_event (example_runtime []) listening first_45_goal []
      = (None, listening\<lparr>seen_goals := {|''7_45_unknown''|}\<rparr>,
         [(''on_goal'', stream_event 7 (PStr ''Unknown'') (PInt 45) (PInt 1) (PInt 0), None)])
   \<and> listen (example_runtime []) (listening\<lparr>seen_goals := {|''7_45_unknown''|}\<rparr>) [] None
        [(''on_goal'', stream_event 7 (PStr ''Unknown'') (PInt 45) (PInt 1) (PInt 0), None)]
      = (None, listening\<lparr>seen_goals := {|''7_45_unknown''|}\<rparr>,
         [(''on_goal'', stream_event 7 (PStr ''Unknown'') (PInt 45) (PInt 1) (PInt 0), None)])
   \<and> handle_goal_event (example_runtime []) (listening\<lparr>seen_goals := {|''7_45_unknown''|}\<rparr>)
        second_45_goal
        [(''on_goal'', stream_event 7 (PStr ''Unknown'') (PInt 45) (PInt 1) (PInt 0), None)]
      = (None, listening\<lparr>seen_goals := {|''7_45_unknown''|}\<rparr>,
         [(''on_goal'', stream_event 7 (PStr ''Unknown'') (PInt 45) (PInt 1) (PInt 0), None)])"
  using same_key_goal_suppressed_while_retained [where ?d1.0 = first_45_goal
      and ?fx1.0 = "PDict [(''id'', PInt 7)]" and ?lg1.0 = "PDict [(''id'', PInt 39)]"
      and ?g1.0 = "[(''minute'', PInt 45)]"
      and ?sc1.0 = "PDict [(''home'', PInt 1), (''away'', PInt 0)]"
      and fid = "PInt 7" and ?lid1.0 = "PInt 39"
      and ?d2.0 = second_45_goal
      and ?fx2.0 = "PDict [(''id'', PInt 7)]" and ?lg2.0 = "PDict [(''id'', PInt 39)]"
      and ?g2.0 = "[(''minute'', PInt 45)]"
      and ?sc2.0 = "PDict [(''home'', PInt 2), (''away'', PInt 0)]"
      and ?lid2.0 = "PInt 39" and ?sup2.0 = True
      and rt = "example_runtime []" and s = listening and between = "[]" and calls = "[]"
      and ending = None]
  by (simp add: example_runtime_def first_45_goal_def second_45_goal_def goal_message_def
     listening_def handle_goal_event_def handle_goal_event_body_def
     goal_fields_def goal_key_def goal_id_def seq_def in_supported_leagues_def SUPPORTED_LEAGUES_def
     prune_seen_def make_goal_event_def init_ws_def on_goal_def show_int_def show_nat.simps digit_char_def
     fcard_finsert_if fcard_fempty stream_event_def)

text \<open>
  Claim C10 as stated fails, since the dedup set is bounded. A fresh listener gets the goal
  to 1-0 of minute 45, then the frames of 1000 other goals, then the goal to 2-0 of minute
  45; neither of the two names a player, so both have the key \<^verbatim>\<open>7_45_unknown\<close>. With
  the last of the 1000 the set passes its mark and is cut to 500 keys; here the set is
  listed in the order in which the keys came, so the 500 newest are kept and the key of the
  first goal, the oldest, goes. The second goal is then delivered.
\<close>

theorem same_key_goal_counterexample:
  "goal_key (example_runtime ((first_45_frame, first_45_goal) # (second_45_frame, second_45_goal)
        # map crowded_entry [1..<1001]))
      (PInt 7) (PDict [(''minute'', PInt 45)]) = Inr ''7_45_unknown''
   \<and> listen (example_runtime ((first_45_frame, first_45_goal) # (second_45_frame, second_45_goal)
        # map crowded_entry [1..<1001]))
      listening (first_45_frame # map crowded_frame [1..<1001] @ [second_45_frame]) None []
     = (None, listening\<lparr>seen_goals := finsert ''7_45_unknown'' crowded_kept\<rparr>,
        (''on_goal'', stream_event 7 (PStr ''Unknown'') (PInt 45) (PInt 1) (PInt 0), None)
        # map crowded_delivery [1..<1001]
        @ [(''on_goal'', stream_event 7 (PStr ''Unknown'') (PInt 45) (PInt 2) (PInt 0), None)])"
proof -
  let ?rt = "example_runtime ((first_45_frame, first_45_goal) # (second_45_frame, second_45_goal)
        # map crowded_entry [1..<1001])"
  have l1: "json_loads ?rt first_45_frame = Inr first_45_goal" by (simp add: example_runtime_def)
  have l2: "json_loads ?rt second_45_frame = Inr second_45_goal"
    by (simp add: example_runtime_def first_45_frame_def second_45_frame_def)
  have t1: "dict_get first_45_goal ''type'' (PStr []) = Inr (PStr ''goal'')"
    by (simp add: first_45_goal_def goal_message_type)
  have t2: "dict_get second_45_goal ''type'' (PStr []) = Inr (PStr ''goal'')"
    by (simp add: second_45_goal_def goal_message_type)
  have f1: "goal_fields first_45_goal = Inr (PDict [(''id'', PInt 7)], PDict [(''id'', PInt 39)],
        PDict [(''minute'', PInt 45)], PDict [(''home'', PInt 1), (''away'', PInt 0)],
        PInt 7, PInt 39, True)"
    by (simp add: first_45_goal_def goal_message_fields)
  have f2: "goal_fields second_45_goal = Inr (PDict [(''id'', PInt 7)], PDict [(''id'', PInt 39)],
        PDict [(''minute'', PInt 45)], PDict [(''home'', PInt 2), (''away'', PInt 0)],
        PInt 7, PInt 39, True)"
    by (simp add: second_45_goal_def goal_message_fields)
  have k: "goal_key ?rt (PInt 7) (PDict [(''minute'', PInt 45)]) = Inr (CHR ''7'' # ''_45_unknown'')"
    by (simp add: goal_key_def seq_def goal_id_def show_int_def show_nat.simps digit_char_def)
  have e1: "make_goal_event (PInt 7) (PInt 39) (PDict [(''id'', PInt 7)]) (PDict [(''id'', PInt 39)])
        (PDict [(''minute'', PInt 45)]) (PDict [(''home'', PInt 1), (''away'', PInt 0)])
      = Inr (stream_event 7 (PStr ''Unknown'') (PInt 45) (PInt 1) (PInt 0))"
    by (simp add: make_goal_event_def seq_def stream_event_def)
  have e2: "make_goal_event (PInt 7) (PInt 39) (PDict [(''id'', PInt 7)]) (PDict [(''id'', PInt 39)])
        (PDict [(''minute'', PInt 45)]) (PDict [(''home'', PInt 2), (''away'', PInt 0)])
      = Inr (stream_event 7 (PStr ''Unknown'') (PInt 45) (PInt 2) (PInt 0))"
    by (simp add: make_goal_event_def seq_def stream_event_def)
  have o: "set_order ?rt = sorted_list_of_fset" by (simp add: example_runtime_def)
  have c: "\<And>i. 1 \<le> i \<Longrightarrow> i < 1001 \<Longrightarrow> json_loads ?rt (crowded_frame i) = Inr (crowded_goal i)"
  proof -
    fix i :: nat assume "1 \<le> i" "i < 1001"
    then have "i \<in> set [1..<1001]" by simp
    then have "map_of (map crowded_entry [1..<1001]) (crowded_frame i) = Some (crowded_goal i)"
      by (rule map_of_crowded)
    moreover have "crowded_frame i \<noteq> first_45_frame" "crowded_frame i \<noteq> second_45_frame"
      by (simp_all add: crowded_frame_def first_45_frame_def second_45_frame_def)
    ultimately show "json_loads ?rt (crowded_frame i) = Inr (crowded_goal i)"
      by (simp add: example_runtime_def del: upt_Suc)
  qed
  have "listen ?rt listening (first_45_frame # map crowded_frame [1..<1001] @ [second_45_frame]) None []
     = (None, listening\<lparr>seen_goals := finsert ''7_45_unknown'' crowded_kept\<rparr>,
        (''on_goal'', stream_event 7 (PStr ''Unknown'') (PInt 45) (PInt 1) (PInt 0), None)
        # map crowded_delivery [1..<1001]
        @ [(''on_goal'', stream_event 7 (PStr ''Unknown'') (PInt 45) (PInt 2) (PInt 0), None)])"
    using evicted_after_crowd [OF l1 t1 f1 k e1 l2 t2 f2 k e2 c o] by simp
  with k show ?thesis by simp
qed

end
